theory Spec2Isabelle
  imports Complex_Main "HOL-Library.AList"
begin

section \<open>JavaScript values used by the program\<close>

text \<open>
  A JavaScript \<open>number\<close> is modelled as an exact rational or \<open>NaN\<close>. The program only
  ever tests numbers for truthiness (\<open>x || d\<close>), compares them with \<open>0\<close>, divides them
  by a non-zero number and prints them, so the model keeps exactly what decides those
  operations. The rounding of IEEE doubles, overflow to \<open>Infinity\<close> and the sign of zero
  are not modelled.
\<close>

datatype number = NaN | Num rat

text \<open>Truthiness of a number: \<open>0\<close> and \<open>NaN\<close> are falsy, every other number is truthy.\<close>

fun truthy :: "number \<Rightarrow> bool" where
  "truthy NaN = False"
| "truthy (Num q) = (q \<noteq> 0)"

text \<open>\<open>a || b\<close> on numbers.\<close>

definition numOr :: "number \<Rightarrow> number \<Rightarrow> number" where
  "numOr a b = (if truthy a then a else b)"

text \<open>\<open>a > 0\<close>: false for \<open>NaN\<close>.\<close>

fun gt0 :: "number \<Rightarrow> bool" where
  "gt0 NaN = False"
| "gt0 (Num q) = (0 < q)"

text \<open>
  \<open>a / b\<close>. Both divisions of the program (\<open>rate / 2\<close> and \<open>taxableValue / qty\<close> with
  \<open>qty = quantity || 1\<close>) have a divisor that is not zero; the model gives \<open>NaN\<close> for a
  zero divisor, where JavaScript gives \<open>NaN\<close> or an infinity.
\<close>

fun numDiv :: "number \<Rightarrow> number \<Rightarrow> number" where
  "numDiv (Num a) (Num b) = (if b = 0 then NaN else Num (a / b))"
| "numDiv _ _ = NaN"

subsection \<open>Printing numbers\<close>

definition digitChar :: "nat \<Rightarrow> char" where
  "digitChar d = char_of (48 + d)"

fun showNat :: "nat \<Rightarrow> string" where
  "showNat n = (if n < 10 then [digitChar n] else showNat (n div 10) @ [digitChar (n mod 10)])"

declare showNat.simps [simp del]

text \<open>The digits after the decimal point of a fraction \<open>0 \<le> f < 1\<close>, at most \<open>fuel\<close> of them.\<close>

fun fracDigits :: "nat \<Rightarrow> rat \<Rightarrow> string" where
  "fracDigits 0 f = []"
| "fracDigits (Suc fuel) f =
     (if f = 0 then []
      else digitChar (nat \<lfloor>f * 10\<rfloor>) # fracDigits fuel (f * 10 - of_int \<lfloor>f * 10\<rfloor>))"

definition showPos :: "rat \<Rightarrow> string" where
  "showPos q =
     (let n = nat \<lfloor>q\<rfloor>; f = q - of_int \<lfloor>q\<rfloor>
      in showNat n @ (if f = 0 then [] else CHR ''.'' # fracDigits 20 f))"

text \<open>
  \<open>String(x)\<close> and \<open>`${x}`\<close> for a number: the decimal expansion, which is what JavaScript
  prints for integers below \<open>10^21\<close> and for the short decimal fractions that parsing a
  cell and halving a rate produce.

  Where the model departs from JavaScript: for \<open>|x| \<ge> 10^21\<close> and for \<open>0 < |x| < 10^-6\<close>
  JavaScript prints exponent notation (\<open>1e+21\<close>, \<open>1e-7\<close>) and the model prints all the
  digits; JavaScript prints the shortest digits that read back as the double, at most
  seventeen of them, and the model prints the digits of the exact rational, at most twenty
  after the point. The properties below that print a number print integers of one or two
  digits, on which the two agree, or need only that the printed text holds none of
  \<open>< > & ' "\<close>, which is so for JavaScript's text too.
\<close>

fun numToString :: "number \<Rightarrow> string" where
  "numToString NaN = ''NaN''"
| "numToString (Num q) = (if q < 0 then CHR ''-'' # showPos (- q) else showPos q)"

text \<open>\<open>s.padStart(2, '0')\<close>.\<close>

definition padStart2 :: "string \<Rightarrow> string" where
  "padStart2 s = replicate (2 - length s) (CHR ''0'') @ s"

text \<open>
  \<open>x.toFixed(2)\<close>: the integer \<open>n\<close> nearest to \<open>|x| * 100\<close> (the larger one on a tie),
  printed with at least three digits and a point before the last two.

  Where the model departs from JavaScript: the model rounds the exact decimal value and
  JavaScript rounds the double nearest to it, so a value that lies on a tie in decimal but
  whose double lies below it is printed differently (\<open>2.675\<close> is \<open>2.68\<close> here and \<open>2.67\<close> in
  JavaScript), and for \<open>|x| \<ge> 10^21\<close> JavaScript prints exponent notation. The
  properties below that print an amount print integers of at most five digits, which are
  doubles and no ties, or need only that the printed text holds none of \<open>< > & ' "\<close>,
  which is so for JavaScript's text too.
\<close>

fun toFixed2 :: "number \<Rightarrow> string" where
  "toFixed2 NaN = ''NaN''"
| "toFixed2 (Num q) =
     (let n = nat \<lfloor>\<bar>q\<bar> * 100 + 1 / 2\<rfloor>;
          ds = showNat n;
          ds' = replicate (3 - length ds) (CHR ''0'') @ ds
      in (if q < 0 then ''-'' else '''') @ take (length ds' - 2) ds' @ ''.'' @ drop (length ds' - 2) ds')"

subsection \<open>Parsing numbers\<close>

definition isDigit :: "char \<Rightarrow> bool" where
  "isDigit c = (c \<in> set ''0123456789'')"

definition digitVal :: "char \<Rightarrow> nat" where
  "digitVal c = of_char c - 48"

definition digitsVal :: "string \<Rightarrow> nat" where
  "digitsVal ds = foldl (\<lambda>a c. 10 * a + digitVal c) 0 ds"

text \<open>
  The longest prefix of \<open>s\<close> that is a decimal literal (an optional sign, then digits with
  an optional point and more digits, or a point and digits), with its value and the rest
  of the string. The program parses only strings from which the regular expression
  \<open>/[^0-9.-]+/g\<close> has removed every other character, so white space, exponents and the
  word \<open>Infinity\<close> cannot occur.

  Where the model departs from JavaScript: the value is the exact rational the digits
  denote. JavaScript rounds it to the nearest double, gives \<open>Infinity\<close> for a literal above
  the largest double (more than 308 digits) and \<open>0\<close> for one below the smallest. The cells
  parsed in the properties below are integers of at most five digits, which are doubles.
\<close>

definition scanDecimal :: "string \<Rightarrow> (rat \<times> string) option" where
  "scanDecimal s =
     (let (neg, r) = (case s of c # r' \<Rightarrow> if c = CHR ''-'' then (True, r')
                                         else if c = CHR ''+'' then (False, r') else (False, s)
                      | [] \<Rightarrow> (False, s));
          d1 = takeWhile isDigit r;
          r1 = dropWhile isDigit r;
          (d2, r2) = (case r1 of c # r' \<Rightarrow> if c = CHR ''.'' \<and> (d1 \<noteq> [] \<or> takeWhile isDigit r' \<noteq> [])
                                          then (takeWhile isDigit r', dropWhile isDigit r') else ([], r1)
                      | [] \<Rightarrow> ([], r1));
          v = of_nat (digitsVal d1) + of_nat (digitsVal d2) / 10 ^ length d2
      in if d1 = [] \<and> d2 = [] then None else Some (if neg then - v else v, r2))"

text \<open>\<open>parseFloat(s)\<close>: the value of the longest literal prefix, \<open>NaN\<close> when there is none.\<close>

definition parseFloat :: "string \<Rightarrow> number" where
  "parseFloat s = (case scanDecimal s of None \<Rightarrow> NaN | Some (v, _) \<Rightarrow> Num v)"

text \<open>\<open>Number(s)\<close>: the empty string is \<open>0\<close>; otherwise the whole string must be a literal.\<close>

definition toNumber :: "string \<Rightarrow> number" where
  "toNumber s =
     (if s = [] then Num 0
      else case scanDecimal s of Some (v, []) \<Rightarrow> Num v | _ \<Rightarrow> NaN)"

text \<open>\<open>val.replace(/[^0-9.-]+/g, "")\<close>.\<close>

definition stripNonNumeric :: "string \<Rightarrow> string" where
  "stripNonNumeric val = filter (\<lambda>c. c \<in> set ''0123456789.-'') val"

subsection \<open>Strings, arrays and exceptions\<close>

text \<open>
  A string is a list of \<open>char\<close>. Every character the program looks for (the digits, the
  point, the minus sign, the comma, the double quote, the five characters that \<open>sanitize\<close>
  replaces, white space and the capital letters) is an ASCII character.

  A value of static type \<open>string\<close> that may be \<open>undefined\<close> at run time (\<open>row[idx]\<close> past
  the end of a short row) is a \<open>string option\<close>, \<open>None\<close> for \<open>undefined\<close>.
\<close>

type_synonym jsstring = "string option"

text \<open>\<open>s || d\<close> for a string \<open>s\<close> that may be undefined and a string literal \<open>d\<close>.\<close>

fun strOr :: "jsstring \<Rightarrow> string \<Rightarrow> string" where
  "strOr None d = d"
| "strOr (Some s) d = (if s = [] then d else s)"

text \<open>The only exception the modelled code can raise: a method call on \<open>undefined\<close>.\<close>

datatype error = TypeError

definition bindE :: "error + 'a \<Rightarrow> ('a \<Rightarrow> error + 'b) \<Rightarrow> error + 'b" where
  "bindE r f = (case r of Inl e \<Rightarrow> Inl e | Inr x \<Rightarrow> f x)"

text \<open>\<open>xs.map(f)\<close> for an \<open>f\<close> that may throw: the first exception ends the loop.\<close>

fun mapE :: "('a \<Rightarrow> error + 'b) \<Rightarrow> 'a list \<Rightarrow> error + 'b list" where
  "mapE f [] = Inr []"
| "mapE f (x # xs) = bindE (f x) (\<lambda>y. bindE (mapE f xs) (\<lambda>ys. Inr (y # ys)))"

text \<open>\<open>xs.indexOf(x)\<close>: the first index, \<open>None\<close> for \<open>-1\<close>.\<close>

fun indexOf :: "'a list \<Rightarrow> 'a \<Rightarrow> nat option" where
  "indexOf [] x = None"
| "indexOf (y # ys) x = (if y = x then Some 0 else map_option Suc (indexOf ys x))"

text \<open>\<open>xs[i]\<close>: \<open>undefined\<close> out of range.\<close>

definition nth_opt :: "'a list \<Rightarrow> nat \<Rightarrow> 'a option" where
  "nth_opt xs i = (if i < length xs then Some (xs ! i) else None)"

text \<open>
  What the program needs from the host: \<open>new Date(s)\<close> read in local time, that is
  \<open>(getFullYear(), getMonth(), getDate())\<close>, or \<open>None\<close> for an invalid date. Date parsing
  and the time zone are implementation-defined, so they are a parameter.
\<close>

type_synonym dateParser = "jsstring \<Rightarrow> (int \<times> nat \<times> nat) option"

section \<open>Data model (types.ts and FileData)\<close>

record MarketplaceTransaction =
  date :: jsstring
  invoiceNo :: jsstring
  customerName :: jsstring
  state :: jsstring
  taxableValue :: number
  igst :: number
  cgst :: number
  sgst :: number
  totalAmount :: number
  gstRate :: number
  productName :: jsstring
  quantity :: number

text \<open>
  \<open>keyof ColumnMapping\<close>. A \<open>ColumnMapping\<close> is only ever read as \<open>mapping[key]\<close>, so it
  is the function from its twelve keys to the header each is mapped to.
\<close>

datatype ColumnKey =
  K_date | K_invoiceNo | K_customerName | K_state | K_taxableValue | K_igst | K_cgst
  | K_sgst | K_totalAmount | K_gstRate | K_productName | K_quantity

type_synonym ColumnMapping = "ColumnKey \<Rightarrow> string"

text \<open>The key as the string JavaScript sees.\<close>

fun keyName :: "ColumnKey \<Rightarrow> string" where
  "keyName K_date = ''date''"
| "keyName K_invoiceNo = ''invoiceNo''"
| "keyName K_customerName = ''customerName''"
| "keyName K_state = ''state''"
| "keyName K_taxableValue = ''taxableValue''"
| "keyName K_igst = ''igst''"
| "keyName K_cgst = ''cgst''"
| "keyName K_sgst = ''sgst''"
| "keyName K_totalAmount = ''totalAmount''"
| "keyName K_gstRate = ''gstRate''"
| "keyName K_productName = ''productName''"
| "keyName K_quantity = ''quantity''"

text \<open>
  \<open>Object.keys(mapping)\<close>: the keys in the order in which the state's object literal
  lists them. This is the order of the initial state, of the object \<open>clearMappings\<close> sets and
  of every state that \<open>setMapping({...mapping, [key]: v})\<close> gives, since a spread keeps the
  order of its keys.

  Where the model departs from the program: \<open>setMapping(aiMapping)\<close> stores the object that
  \<open>identifyHeaders\<close> returns, whose source is not part of the modelled files, and the keys
  of that object may come in another order or be fewer. The order decides in which order
  a duplicate message names the other fields. The properties below hold for a mapping with
  the twelve keys in the order of the literal.
\<close>

definition mappingKeys :: "ColumnKey list" where
  "mappingKeys = [K_date, K_invoiceNo, K_customerName, K_state, K_taxableValue, K_igst,
     K_cgst, K_sgst, K_totalAmount, K_gstRate, K_productName, K_quantity]"

text \<open>The initial mapping and the one \<open>clearMappings\<close> sets: every field unmapped.\<close>

definition blankMapping :: ColumnMapping where
  "blankMapping = (\<lambda>k. '''')"

record FileData =
  name :: string
  headers :: "string list"
  rawData :: "string list list"

definition REQUIRED_FIELDS :: "ColumnKey list" where
  "REQUIRED_FIELDS = [K_date, K_invoiceNo, K_customerName, K_taxableValue, K_totalAmount,
     K_gstRate, K_productName, K_quantity]"

definition NUMERIC_FIELDS :: "ColumnKey list" where
  "NUMERIC_FIELDS = [K_taxableValue, K_igst, K_cgst, K_sgst, K_totalAmount, K_gstRate, K_quantity]"

definition DATE_FIELDS :: "ColumnKey list" where
  "DATE_FIELDS = [K_date]"

section \<open>CSV ingestion (parseCSV, handleFileUpload)\<close>

text \<open>Puts a character in front of the first piece of a split.\<close>

fun consFirst :: "char \<Rightarrow> string list \<Rightarrow> string list" where
  "consFirst c [] = [[c]]"
| "consFirst c (l # ls) = (c # l) # ls"

text \<open>\<open>csvText.split(/\r?\n/)\<close>: a line feed ends a line, with the carriage return before it.\<close>

fun splitLines :: "string \<Rightarrow> string list" where
  "splitLines [] = [[]]"
| "splitLines [c] = (if c = CHR 0x0A then [[], []] else [[c]])"
| "splitLines (c # d # cs) =
     (if c = CHR 0x0A then [] # splitLines (d # cs)
      else if c = CHR 0x0D \<and> d = CHR 0x0A then [] # splitLines cs
      else consFirst c (splitLines (d # cs)))"

text \<open>\<open>line.split(',')\<close>.\<close>

fun splitComma :: "string \<Rightarrow> string list" where
  "splitComma [] = [[]]"
| "splitComma (c # cs) =
     (if c = CHR '','' then [] # splitComma cs else consFirst c (splitComma cs))"

text \<open>
  White space as \<open>trim\<close> sees it, among the characters a \<open>char\<close> can hold: tab, line
  feed, vertical tab, form feed, carriage return, space and the no-break space.
\<close>

definition isSpace :: "char \<Rightarrow> bool" where
  "isSpace c = (c \<in> set [CHR 0x09, CHR 0x0A, CHR 0x0B, CHR 0x0C, CHR 0x0D, CHR 0x20, CHR 0xA0])"

definition trim :: "string \<Rightarrow> string" where
  "trim s = rev (dropWhile isSpace (rev (dropWhile isSpace s)))"

text \<open>\<open>cell.replace(/^"|"$/g, '')\<close>: one double quote off the front, then one off the end.\<close>

definition stripQuotes :: "string \<Rightarrow> string" where
  "stripQuotes s =
     (let s1 = (case s of c # r \<Rightarrow> if c = CHR 0x22 then r else s | [] \<Rightarrow> s)
      in if s1 \<noteq> [] \<and> last s1 = CHR 0x22 then butlast s1 else s1)"

definition parseCSV :: "string \<Rightarrow> string list list" where
  "parseCSV csvText =
     filter (\<lambda>line. length line > 1)
       (map (\<lambda>line. map (\<lambda>cell. stripQuotes (trim cell)) (splitComma line)) (splitLines csvText))"

section \<open>The application state\<close>

datatype AppStep = UPLOAD | MAPPING | REVIEW | EXPORT

record AppState =
  step :: AppStep
  uploadedFiles :: "FileData list"
  mapping :: ColumnMapping
  transactions :: "MarketplaceTransaction list"
  isProcessing :: bool
  expandedRowIndex :: "nat option"
  ledgerOverrides :: "string \<rightharpoonup> string"

text \<open>The initial values of the \<open>useState\<close> hooks.\<close>

definition initialState :: AppState where
  "initialState =
     \<lparr>step = UPLOAD, uploadedFiles = [], mapping = blankMapping, transactions = [],
      isProcessing = False, expandedRowIndex = None, ledgerOverrides = Map.empty\<rparr>"

text \<open>
  One uploaded file becomes a \<open>FileData\<close> only when \<open>parseCSV\<close> kept at least one line:
  the first line is the header row, the others are the raw rows.
\<close>

definition fileDataOf :: "string \<times> string \<Rightarrow> FileData list" where
  "fileDataOf f =
     (case parseCSV (snd f) of
        [] \<Rightarrow> []
      | h # rows \<Rightarrow> [\<lparr>name = fst f, headers = h, rawData = rows\<rparr>])"

text \<open>
  \<open>handleFileUpload\<close>. A file is its name and its text (\<open>await file.text()\<close>); a missing
  or empty file list returns at once.
\<close>

definition handleFileUpload :: "(string \<times> string) list \<Rightarrow> AppState \<Rightarrow> AppState" where
  "handleFileUpload files st =
     (if files = [] then st
      else st\<lparr>uploadedFiles := uploadedFiles st @ concat (map fileDataOf files),
              isProcessing := False\<rparr>)"

section \<open>Mapping validation (validationResults, hasCriticalErrors)\<close>

text \<open>
  \<open>getSampleData(header, 3)\<close>: from the first file that has the header, the cells of that
  column in the first \<open>count\<close> rows, without the undefined ones.
\<close>

fun getSampleData :: "FileData list \<Rightarrow> string \<Rightarrow> nat \<Rightarrow> string list" where
  "getSampleData [] header count = []"
| "getSampleData (file # rest) header count =
     (case indexOf (headers file) header of
        Some idx \<Rightarrow> List.map_filter (\<lambda>row. nth_opt row idx) (take count (rawData file))
      | None \<Rightarrow> getSampleData rest header count)"

record ValidationResults =
  errors :: "(ColumnKey \<times> string) list"
  warnings :: "(ColumnKey \<times> string) list"
  samples :: "(ColumnKey \<times> string list) list"

text \<open>
  The three objects are association lists in insertion order, as \<open>Object.keys\<close> lists
  them; \<open>usedHeaders\<close> is the \<open>Map\<close> from a header to the keys mapped to it.
\<close>

type_synonym usedHeaders = "(string \<times> ColumnKey list) list"

text \<open>
  The callbacks of the two \<open>every\<close> calls. \<open>isFinite(Number(num))\<close> is modelled as
  \<open>Number(num)\<close> not being \<open>NaN\<close>; \<open>Date.parse(val)\<close> is \<open>NaN\<close> exactly when the date
  is invalid.
\<close>

definition looksNumeric :: "string \<Rightarrow> bool" where
  "looksNumeric val =
     (if val = [] then True
      else (let num = stripNonNumeric val in parseFloat num \<noteq> NaN \<and> toNumber num \<noteq> NaN))"

definition looksDate :: "dateParser \<Rightarrow> string \<Rightarrow> bool" where
  "looksDate dp val = (if val = [] then True else dp (Some val) \<noteq> None)"

text \<open>The body of the first \<open>forEach\<close>, for one key.\<close>

definition validateKey ::
  "dateParser \<Rightarrow> FileData list \<Rightarrow> ColumnMapping \<Rightarrow> ColumnKey
    \<Rightarrow> ValidationResults \<times> usedHeaders \<Rightarrow> ValidationResults \<times> usedHeaders" where
  "validateKey dp files m key s =
     (let vr = fst s; used = snd s; header = m key
      in if key \<in> set REQUIRED_FIELDS \<and> header = []
         then (vr\<lparr>errors := AList.update key ''This field is required for Tally import.'' (errors vr)\<rparr>,
               used)
         else if header \<noteq> [] then
           (let used1 = (if map_of used header = None then AList.update header [] used else used);
                used2 = AList.map_entry header (\<lambda>ks. ks @ [key]) used1;
                sampleValues = getSampleData files header 3;
                vr1 = vr\<lparr>samples := AList.update key sampleValues (samples vr)\<rparr>;
                vr2 = (if key \<in> set NUMERIC_FIELDS \<and> length sampleValues > 0
                          \<and> \<not> list_all looksNumeric sampleValues
                       then vr1\<lparr>warnings := AList.update key
                              ''Values in some files don't look like numbers.'' (warnings vr1)\<rparr>
                       else vr1);
                vr3 = (if key \<in> set DATE_FIELDS \<and> length sampleValues > 0
                          \<and> \<not> list_all (looksDate dp) sampleValues
                       then vr2\<lparr>warnings := AList.update key
                              ''Values in some files don't look like valid dates.'' (warnings vr2)\<rparr>
                       else vr2)
            in (vr3, used2))
         else (vr, used))"

text \<open>\<open>k.replace(/([A-Z])/g, ' $1')\<close>: a space before every capital letter.\<close>

definition humanize :: "string \<Rightarrow> string" where
  "humanize k =
     concat (map (\<lambda>c. if c \<in> set ''ABCDEFGHIJKLMNOPQRSTUVWXYZ'' then [CHR '' '', c] else [c]) k)"

text \<open>\<open>xs.join(sep)\<close>.\<close>

fun joinWith :: "string \<Rightarrow> string list \<Rightarrow> string" where
  "joinWith sep [] = []"
| "joinWith sep [x] = x"
| "joinWith sep (x # y # ys) = x @ sep @ joinWith sep (y # ys)"

definition duplicateMessage :: "string \<Rightarrow> ColumnKey list \<Rightarrow> ColumnKey \<Rightarrow> string" where
  \<open>duplicateMessage header keys key =
     ''Duplicate mapping: "'' @ header @ ''" is also used for ''
       @ joinWith '', '' (map (\<lambda>k. humanize (keyName k)) (filter (\<lambda>k. k \<noteq> key) keys)) @ ''.''\<close>

text \<open>The body of \<open>usedHeaders.forEach\<close>, for one header and its keys.\<close>

definition flagDuplicates ::
  "string \<times> ColumnKey list \<Rightarrow> (ColumnKey \<times> string) list \<Rightarrow> (ColumnKey \<times> string) list" where
  "flagDuplicates e errs =
     (let header = fst e; keys = snd e
      in if length keys > 1
         then fold (\<lambda>key es. AList.update key (duplicateMessage header keys key) es) keys errs
         else errs)"

definition validationResults ::
  "dateParser \<Rightarrow> FileData list \<Rightarrow> ColumnMapping \<Rightarrow> ValidationResults" where
  "validationResults dp files m =
     (let s = fold (validateKey dp files m) mappingKeys
                (\<lparr>errors = [], warnings = [], samples = []\<rparr>, [])
      in (fst s)\<lparr>errors := fold flagDuplicates (snd s) (errors (fst s))\<rparr>)"

text \<open>\<open>Object.keys(validationResults.errors).length > 0\<close>.\<close>

definition hasCriticalErrors :: "ValidationResults \<Rightarrow> bool" where
  "hasCriticalErrors vr = (length (map fst (errors vr)) > 0)"

section \<open>Building transactions (processMapping)\<close>

text \<open>
  \<open>getVal(field)\<close>: the cell of the row under the mapped header; the empty string when
  the file has no such header, \<open>undefined\<close> when the row is too short.
\<close>

definition getVal :: "FileData \<Rightarrow> ColumnMapping \<Rightarrow> string list \<Rightarrow> ColumnKey \<Rightarrow> jsstring" where
  "getVal file m row field =
     (let header = m field
      in case indexOf (headers file) header of
           Some idx \<Rightarrow> nth_opt row idx
         | None \<Rightarrow> Some [])"

text \<open>
  \<open>parseFloatSafe(val)\<close>: \<open>val.replace\<close> throws on \<open>undefined\<close>; a result of \<open>NaN\<close> or
  \<open>0\<close> becomes \<open>0\<close>.
\<close>

definition parseFloatSafe :: "jsstring \<Rightarrow> error + number" where
  "parseFloatSafe val =
     (case val of
        None \<Rightarrow> Inl TypeError
      | Some v \<Rightarrow> Inr (numOr (parseFloat (stripNonNumeric v)) (Num 0)))"

text \<open>The callback of \<open>file.rawData.map\<close>: one row to one transaction.\<close>

definition buildTransaction ::
  "FileData \<Rightarrow> ColumnMapping \<Rightarrow> string list \<Rightarrow> error + MarketplaceTransaction" where
  "buildTransaction file m row =
     bindE (parseFloatSafe (getVal file m row K_taxableValue)) (\<lambda>tv.
     bindE (parseFloatSafe (getVal file m row K_igst)) (\<lambda>ig.
     bindE (parseFloatSafe (getVal file m row K_cgst)) (\<lambda>cg.
     bindE (parseFloatSafe (getVal file m row K_sgst)) (\<lambda>sg.
     bindE (parseFloatSafe (getVal file m row K_totalAmount)) (\<lambda>ta.
     bindE (parseFloatSafe (getVal file m row K_gstRate)) (\<lambda>gr.
     bindE (parseFloatSafe (getVal file m row K_quantity)) (\<lambda>qt.
       Inr \<lparr>date = getVal file m row K_date,
            invoiceNo = getVal file m row K_invoiceNo,
            customerName = getVal file m row K_customerName,
            state = getVal file m row K_state,
            taxableValue = tv, igst = ig, cgst = cg, sgst = sg,
            totalAmount = ta, gstRate = gr,
            productName = Some (strOr (getVal file m row K_productName) ''General Item''),
            quantity = numOr qt (Num 1)\<rparr>)))))))"

text \<open>
  The body of \<open>uploadedFiles.forEach\<close>: the file's transactions are appended to
  \<open>allProcessed\<close>; an exception thrown for an earlier file or for a row of this one ends
  the loop.
\<close>

definition appendFile ::
  "ColumnMapping \<Rightarrow> error + MarketplaceTransaction list \<Rightarrow> FileData
    \<Rightarrow> error + MarketplaceTransaction list" where
  "appendFile m acc file =
     bindE acc (\<lambda>allProcessed.
       bindE (mapE (buildTransaction file m) (rawData file)) (\<lambda>fileTransactions.
         Inr (allProcessed @ fileTransactions)))"

definition buildTransactions ::
  "ColumnMapping \<Rightarrow> FileData list \<Rightarrow> error + MarketplaceTransaction list" where
  "buildTransactions m files = foldl (appendFile m) (Inr []) files"

definition processMapping :: "dateParser \<Rightarrow> AppState \<Rightarrow> error + AppState" where
  "processMapping dp st =
     (if hasCriticalErrors (validationResults dp (uploadedFiles st) (mapping st)) then Inr st
      else bindE (buildTransactions (mapping st) (uploadedFiles st)) (\<lambda>allProcessed.
             Inr (st\<lparr>transactions := allProcessed, isProcessing := False,
                      step := REVIEW, expandedRowIndex := None\<rparr>)))"

section \<open>Ledger derivation (suggestedLedgers)\<close>

text \<open>The objects \<open>{ name, type, rate }\<close> pushed to \<open>ledgers\<close>.\<close>

record Ledger =
  lname :: string
  ltype :: string
  lrate :: number

text \<open>\<open>rates.add(r)\<close> on a \<open>Set\<close>, kept in insertion order.\<close>

definition setAdd :: "'a \<Rightarrow> 'a list \<Rightarrow> 'a list" where
  "setAdd x xs = (if x \<in> set xs then xs else xs @ [x])"

text \<open>The value by which \<open>sort((a, b) => a - b)\<close> orders the rates (none of them is \<open>NaN\<close>).\<close>

fun numVal :: "number \<Rightarrow> rat" where
  "numVal NaN = 0"
| "numVal (Num q) = q"

definition collectRates :: "MarketplaceTransaction list \<Rightarrow> number list" where
  "collectRates txs = fold (\<lambda>t rates. if gt0 (gstRate t) then setAdd (gstRate t) rates else rates) txs []"

text \<open>\<open>Array.from(rates).sort((a, b) => a - b)\<close>.\<close>

definition sortedRates :: "MarketplaceTransaction list \<Rightarrow> number list" where
  "sortedRates txs = sort_key numVal (collectRates txs)"

text \<open>What the callback of the last \<open>forEach\<close> pushes for one rate.\<close>

definition ledgersForRate :: "bool \<Rightarrow> bool \<Rightarrow> number \<Rightarrow> Ledger list" where
  "ledgersForRate hasIgst hasCgstSgst r =
     [\<lparr>lname = ''Sales @ '' @ numToString r @ ''%'', ltype = ''Sales Ledger'', lrate = r\<rparr>]
     @ (if hasIgst
        then [\<lparr>lname = ''Output IGST @ '' @ numToString r @ ''%'', ltype = ''Tax Ledger'', lrate = r\<rparr>]
        else [])
     @ (if hasCgstSgst
        then [\<lparr>lname = ''Output CGST @ '' @ numToString (numDiv r (Num 2)) @ ''%'',
                ltype = ''Tax Ledger'', lrate = r\<rparr>,
              \<lparr>lname = ''Output SGST @ '' @ numToString (numDiv r (Num 2)) @ ''%'',
                ltype = ''Tax Ledger'', lrate = r\<rparr>]
        else [])"

definition suggestedLedgers :: "MarketplaceTransaction list \<Rightarrow> Ledger list" where
  "suggestedLedgers txs =
     (let hasIgst = list_ex (\<lambda>t. gt0 (igst t)) txs;
          hasCgstSgst = list_ex (\<lambda>t. gt0 (cgst t) \<or> gt0 (sgst t)) txs
      in concat (map (ledgersForRate hasIgst hasCgstSgst) (sortedRates txs)))"

section \<open>Voucher export (tallyXmlGenerator.ts)\<close>

text \<open>The replacement callback of \<open>sanitize\<close>, for one character.\<close>

definition escapeChar :: "char \<Rightarrow> string" where
  "escapeChar c =
     (if c = CHR ''<'' then ''&lt;''
      else if c = CHR ''>'' then ''&gt;''
      else if c = CHR ''&'' then ''&amp;''
      else if c = CHR 0x27 then ''&apos;''
      else if c = CHR 0x22 then ''&quot;''
      else [c])"

text \<open>\<open>sanitize(str)\<close>: the empty string for a falsy argument (\<open>undefined\<close> or \<open>""\<close>).\<close>

fun sanitize :: "jsstring \<Rightarrow> string" where
  "sanitize None = []"
| "sanitize (Some str) = (if str = [] then [] else concat (map escapeChar str))"

definition formatDateForTally :: "dateParser \<Rightarrow> jsstring \<Rightarrow> string" where
  "formatDateForTally dp dateStr =
     (case dp dateStr of
        None \<Rightarrow> ''20240401''
      | Some (y, m, d) \<Rightarrow>
          numToString (Num (of_int y)) @ padStart2 (showNat (m + 1)) @ padStart2 (showNat d))"

definition getLedgerName :: "(string \<rightharpoonup> string) \<Rightarrow> string \<Rightarrow> string" where
  "getLedgerName overrides defaultName =
     sanitize (Some (case overrides defaultName of
                       None \<Rightarrow> defaultName
                     | Some customName \<Rightarrow>
                         if customName \<noteq> [] \<and> trim customName \<noteq> [] then customName
                         else defaultName))"

text \<open>The constants computed at the top of the loop body, for one transaction.\<close>

definition invoiceNo' :: "MarketplaceTransaction \<Rightarrow> string" where
  "invoiceNo' tx = sanitize (invoiceNo tx)"

definition partyName :: "MarketplaceTransaction \<Rightarrow> string" where
  "partyName tx = sanitize (Some (strOr (customerName tx) ''Cash''))"

definition stateName :: "MarketplaceTransaction \<Rightarrow> string" where
  "stateName tx = sanitize (Some (strOr (state tx) ''Maharashtra''))"

definition productName' :: "MarketplaceTransaction \<Rightarrow> string" where
  "productName' tx = sanitize (Some (strOr (productName tx) ''General Item''))"

definition qty :: "MarketplaceTransaction \<Rightarrow> number" where
  "qty tx = numOr (quantity tx) (Num 1)"

definition rate :: "MarketplaceTransaction \<Rightarrow> number" where
  "rate tx = numOr (gstRate tx) (Num 18)"

definition salesLedger :: "(string \<rightharpoonup> string) \<Rightarrow> MarketplaceTransaction \<Rightarrow> string" where
  "salesLedger overrides tx = getLedgerName overrides (''Sales @ '' @ numToString (rate tx) @ ''%'')"

definition igstLedger :: "(string \<rightharpoonup> string) \<Rightarrow> MarketplaceTransaction \<Rightarrow> string" where
  "igstLedger overrides tx =
     getLedgerName overrides (''Output IGST @ '' @ numToString (rate tx) @ ''%'')"

definition cgstLedger :: "(string \<rightharpoonup> string) \<Rightarrow> MarketplaceTransaction \<Rightarrow> string" where
  "cgstLedger overrides tx =
     getLedgerName overrides (''Output CGST @ '' @ numToString (numDiv (rate tx) (Num 2)) @ ''%'')"

definition sgstLedger :: "(string \<rightharpoonup> string) \<Rightarrow> MarketplaceTransaction \<Rightarrow> string" where
  "sgstLedger overrides tx =
     getLedgerName overrides (''Output SGST @ '' @ numToString (numDiv (rate tx) (Num 2)) @ ''%'')"

text \<open>One line of a template literal: the line break, the indentation, the text.\<close>

definition xmlLine :: "nat \<Rightarrow> string \<Rightarrow> string" where
  "xmlLine n s = CHR 0x0A # replicate n (CHR '' '') @ s"

definition xmlHeader :: string where
  \<open>xmlHeader =
     ''<?xml version="1.0"?>''
     @ xmlLine 0 ''<ENVELOPE>''
     @ xmlLine 2 ''<HEADER>''
     @ xmlLine 4 ''<TALLYREQUEST>Import Data</TALLYREQUEST>''
     @ xmlLine 2 ''</HEADER>''
     @ xmlLine 2 ''<BODY>''
     @ xmlLine 4 ''<IMPORTDATA>''
     @ xmlLine 6 ''<REQUESTDESC>''
     @ xmlLine 8 ''<REPORTNAME>Vouchers</REPORTNAME>''
     @ xmlLine 8 ''<STATICVARIABLES>''
     @ xmlLine 10 ''<SVCURRENTCOMPANY>Ecommerce Sales</SVCURRENTCOMPANY>''
     @ xmlLine 8 ''</STATICVARIABLES>''
     @ xmlLine 6 ''</REQUESTDESC>''
     @ xmlLine 6 ''<REQUESTDATA>''\<close>

definition xmlFooter :: string where
  "xmlFooter =
     xmlLine 6 ''</REQUESTDATA>''
     @ xmlLine 4 ''</IMPORTDATA>''
     @ xmlLine 2 ''</BODY>''
     @ xmlLine 0 ''</ENVELOPE>''"

text \<open>
  The first template literal of the loop body, in its three parts: the voucher's opening
  lines, the debit entry of the party, and the credit entry of the sales ledger with its
  inventory entry.
\<close>

definition voucherHead :: "dateParser \<Rightarrow> MarketplaceTransaction \<Rightarrow> string" where
  \<open>voucherHead dp tx =
     xmlLine 8 ''<TALLYMESSAGE xmlns:UDF="TallyUDF">''
     @ xmlLine 10 ''<VOUCHER VCHTYPE="Sales" ACTION="Create" OBJVIEW="Accounting Voucher View">''
     @ xmlLine 12 (''<DATE>'' @ formatDateForTally dp (date tx) @ ''</DATE>'')
     @ xmlLine 12 ''<VOUCHERTYPENAME>Sales</VOUCHERTYPENAME>''
     @ xmlLine 12 (''<REFERENCE>'' @ invoiceNo' tx @ ''</REFERENCE>'')
     @ xmlLine 12 (''<PARTYLEDGERNAME>'' @ partyName tx @ ''</PARTYLEDGERNAME>'')
     @ xmlLine 12 (''<STATENAME>'' @ stateName tx @ ''</STATENAME>'')
     @ xmlLine 12 ''<FBTPAYMENTTYPE>Default</FBTPAYMENTTYPE>''
     @ xmlLine 12 ''<PERSISTEDVIEW>Accounting Voucher View</PERSISTEDVIEW>''
     @ xmlLine 12 []\<close>

definition partyEntry :: "MarketplaceTransaction \<Rightarrow> string" where
  "partyEntry tx =
     xmlLine 12 ''<!-- Dr Party -->''
     @ xmlLine 12 ''<ALLLEDGERENTRIES.LIST>''
     @ xmlLine 14 (''<LEDGERNAME>'' @ partyName tx @ ''</LEDGERNAME>'')
     @ xmlLine 14 ''<ISDEEMEDPOSITIVE>Yes</ISDEEMEDPOSITIVE>''
     @ xmlLine 14 (''<AMOUNT>-'' @ toFixed2 (totalAmount tx) @ ''</AMOUNT>'')
     @ xmlLine 12 ''</ALLLEDGERENTRIES.LIST>''"

definition salesEntry :: "(string \<rightharpoonup> string) \<Rightarrow> MarketplaceTransaction \<Rightarrow> string" where
  "salesEntry overrides tx =
     xmlLine 0 []
     @ xmlLine 12 ''<!-- Cr Sales with Inventory -->''
     @ xmlLine 12 ''<ALLLEDGERENTRIES.LIST>''
     @ xmlLine 14 (''<LEDGERNAME>'' @ salesLedger overrides tx @ ''</LEDGERNAME>'')
     @ xmlLine 14 ''<ISDEEMEDPOSITIVE>No</ISDEEMEDPOSITIVE>''
     @ xmlLine 14 (''<AMOUNT>'' @ toFixed2 (taxableValue tx) @ ''</AMOUNT>'')
     @ xmlLine 14 ''<INVENTORYENTRIES.LIST>''
     @ xmlLine 16 (''<STOCKITEMNAME>'' @ productName' tx @ ''</STOCKITEMNAME>'')
     @ xmlLine 16 ''<ISDEEMEDPOSITIVE>No</ISDEEMEDPOSITIVE>''
     @ xmlLine 16 (''<RATE>'' @ toFixed2 (numDiv (taxableValue tx) (qty tx)) @ ''</RATE>'')
     @ xmlLine 16 (''<AMOUNT>'' @ toFixed2 (taxableValue tx) @ ''</AMOUNT>'')
     @ xmlLine 16 (''<ACTUALQTY>'' @ numToString (qty tx) @ '' Nos</ACTUALQTY>'')
     @ xmlLine 16 (''<BILLEDQTY>'' @ numToString (qty tx) @ '' Nos</BILLEDQTY>'')
     @ xmlLine 14 ''</INVENTORYENTRIES.LIST>''
     @ xmlLine 12 ''</ALLLEDGERENTRIES.LIST>''"

definition voucherOpen ::
  "dateParser \<Rightarrow> (string \<rightharpoonup> string) \<Rightarrow> MarketplaceTransaction \<Rightarrow> string" where
  "voucherOpen dp overrides tx = voucherHead dp tx @ partyEntry tx @ salesEntry overrides tx"

text \<open>
  One credit entry of a tax ledger. The IGST literal is one such entry; the literal under
  \<open>if (tx.cgst > 0)\<close> is two of them, the CGST entry and then the SGST entry.
\<close>

definition taxEntry :: "string \<Rightarrow> string \<Rightarrow> string" where
  "taxEntry ledgerName amount =
     xmlLine 12 ''<ALLLEDGERENTRIES.LIST>''
     @ xmlLine 14 (''<LEDGERNAME>'' @ ledgerName @ ''</LEDGERNAME>'')
     @ xmlLine 14 ''<ISDEEMEDPOSITIVE>No</ISDEEMEDPOSITIVE>''
     @ xmlLine 14 (''<AMOUNT>'' @ amount @ ''</AMOUNT>'')
     @ xmlLine 12 ''</ALLLEDGERENTRIES.LIST>''"

text \<open>What \<open>if (tx.igst > 0)\<close> appends, and what \<open>if (tx.cgst > 0)\<close> appends.\<close>

definition igstBlock :: "(string \<rightharpoonup> string) \<Rightarrow> MarketplaceTransaction \<Rightarrow> string" where
  "igstBlock overrides tx = taxEntry (igstLedger overrides tx) (toFixed2 (igst tx))"

definition cgstSgstBlock :: "(string \<rightharpoonup> string) \<Rightarrow> MarketplaceTransaction \<Rightarrow> string" where
  "cgstSgstBlock overrides tx =
     taxEntry (cgstLedger overrides tx) (toFixed2 (cgst tx))
     @ taxEntry (sgstLedger overrides tx) (toFixed2 (sgst tx))"

definition voucherClose :: string where
  "voucherClose = xmlLine 10 ''</VOUCHER>'' @ xmlLine 8 ''</TALLYMESSAGE>''"

text \<open>What one pass of the loop body appends to \<open>xml\<close>.\<close>

definition voucherXml ::
  "dateParser \<Rightarrow> (string \<rightharpoonup> string) \<Rightarrow> MarketplaceTransaction \<Rightarrow> string" where
  "voucherXml dp overrides tx =
     voucherOpen dp overrides tx
     @ (if gt0 (igst tx) then igstBlock overrides tx else [])
     @ (if gt0 (cgst tx) then cgstSgstBlock overrides tx else [])
     @ voucherClose"

definition generateTallyXml ::
  "dateParser \<Rightarrow> MarketplaceTransaction list \<Rightarrow> (string \<rightharpoonup> string) \<Rightarrow> string" where
  "generateTallyXml dp txs overrides =
     foldl (\<lambda>xml tx. xml @ voucherXml dp overrides tx) xmlHeader txs @ xmlFooter"

section \<open>Inputs and predicates of the properties\<close>

text \<open>
  The scenario of the specification: the mapping, a file whose header order matches the
  row, and the transaction the row is expected to give.
\<close>

definition scenarioMapping :: ColumnMapping where
  "scenarioMapping = blankMapping
     (K_taxableValue := ''Taxable Value'', K_totalAmount := ''Invoice Amount'',
      K_gstRate := ''Rate'', K_igst := ''IGST'', K_date := ''Date'',
      K_invoiceNo := ''Invoice No'', K_customerName := ''Name'',
      K_productName := ''Item'', K_quantity := ''Qty'')"

definition scenarioHeaders :: "string list" where
  "scenarioHeaders = [''Date'', ''Invoice No'', ''Name'', ''Taxable Value'', ''IGST'', ''Rate'',
     ''Qty'', ''Item'', ''Invoice Amount'']"

definition scenarioRow :: "string list" where
  "scenarioRow = [''2024-04-15'', ''INV001'', ''Alice'', ''1000'', ''180'', ''18'', ''2'',
     ''Widget'', ''18000'']"

definition scenarioFile :: FileData where
  "scenarioFile = \<lparr>name = ''sales.csv'', headers = scenarioHeaders, rawData = [scenarioRow]\<rparr>"

definition scenarioTransaction :: MarketplaceTransaction where
  "scenarioTransaction =
     \<lparr>date = Some ''2024-04-15'', invoiceNo = Some ''INV001'', customerName = Some ''Alice'',
      state = Some [], taxableValue = Num 1000, igst = Num 180, cgst = Num 0, sgst = Num 0,
      totalAmount = Num 18000, gstRate = Num 18, productName = Some ''Widget'',
      quantity = Num 2\<rparr>"

text \<open>The same row with a negative quantity cell, and with a negative rate cell.\<close>

definition negativeQtyRow :: "string list" where
  "negativeQtyRow = scenarioRow[6 := ''-2'']"


text \<open>An intra-state sale whose CGST cell is empty and whose SGST cell holds the tax.\<close>

definition sgstOnlyTransaction :: MarketplaceTransaction where
  "sgstOnlyTransaction =
     \<lparr>date = Some ''2024-04-15'', invoiceNo = Some ''INV002'', customerName = Some ''Bob'',
      state = Some ''Goa'', taxableValue = Num 1000, igst = Num 0, cgst = Num 0, sgst = Num 90,
      totalAmount = Num 1090, gstRate = Num 18, productName = Some ''Widget'',
      quantity = Num 1\<rparr>"

text \<open>
  A text is escaped when none of \<open>< > ' "\<close> occurs in it and every \<open>&\<close> starts one of the
  five entities.
\<close>

definition entityNames :: "string list" where
  "entityNames = [''lt;'', ''gt;'', ''amp;'', ''apos;'', ''quot;'']"

definition startsEntity :: "string \<Rightarrow> bool" where
  "startsEntity cs = list_ex (\<lambda>e. take (length e) cs = e) entityNames"

fun xmlEscaped :: "string \<Rightarrow> bool" where
  "xmlEscaped [] = True"
| "xmlEscaped (c # cs) =
     (if c \<in> set [CHR ''<'', CHR ''>'', CHR 0x27, CHR 0x22] then False
      else if c = CHR ''&'' then startsEntity cs \<and> xmlEscaped cs
      else xmlEscaped cs)"

text \<open>Reading an escaped text back: every entity becomes its character again.\<close>

fun unescape :: "string \<Rightarrow> string" where
  "unescape [] = []"
| "unescape (c # cs) =
     (if c = CHR ''&'' \<and> take 3 cs = ''lt;'' then CHR ''<'' # unescape (drop 3 cs)
      else if c = CHR ''&'' \<and> take 3 cs = ''gt;'' then CHR ''>'' # unescape (drop 3 cs)
      else if c = CHR ''&'' \<and> take 4 cs = ''amp;'' then CHR ''&'' # unescape (drop 4 cs)
      else if c = CHR ''&'' \<and> take 5 cs = ''apos;'' then CHR 0x27 # unescape (drop 5 cs)
      else if c = CHR ''&'' \<and> take 5 cs = ''quot;'' then CHR 0x22 # unescape (drop 5 cs)
      else c # unescape cs)"

text \<open>
  A file with CGST, SGST and State columns after the scenario's, the mapping that maps them,
  and the row that gives \<open>sgstOnlyTransaction\<close>.
\<close>

definition splitTaxMapping :: ColumnMapping where
  "splitTaxMapping = scenarioMapping(K_cgst := ''CGST'', K_sgst := ''SGST'', K_state := ''State'')"

definition splitTaxRow :: "string list" where
  "splitTaxRow = [''2024-04-15'', ''INV002'', ''Bob'', ''1000'', ''0'', ''18'', ''1'', ''Widget'',
     ''1090'', [], ''90'', ''Goa'']"

definition splitTaxFile :: FileData where
  "splitTaxFile = \<lparr>name = ''intra.csv'', headers = scenarioHeaders @ [''CGST'', ''SGST'', ''State''],
     rawData = [splitTaxRow]\<rparr>"

section \<open>Predicates on the exported document\<close>

text \<open>
  Every \<open>&\<close> of a text starts one of the five entities. Unlike \<open>xmlEscaped\<close> this allows
  the markup characters, so it can be asked of the whole document.
\<close>

fun ampsEscaped :: "string \<Rightarrow> bool" where
  "ampsEscaped [] = True"
| "ampsEscaped (c # cs) =
     (if c = CHR ''&'' then startsEntity cs \<and> ampsEscaped cs else ampsEscaped cs)"

text \<open>The number of tax entries the two \<open>if\<close> statements append to a voucher.\<close>

definition taxEntryCount :: "MarketplaceTransaction \<Rightarrow> nat" where
  "taxEntryCount tx = (if gt0 (igst tx) then 1 else 0) + (if gt0 (cgst tx) then 2 else 0)"

text \<open>
  A transaction whose text fields hold all five special characters, and an override of
  its sales ledger name that holds two of them.
\<close>

definition quotedTransaction :: MarketplaceTransaction where
  \<open>quotedTransaction =
     \<lparr>date = Some ''2024-04-15'', invoiceNo = Some ''A&B<1>'',
      customerName = Some ''O'Neil "Oz" & Co'', state = Some ''<Goa>'',
      taxableValue = Num 1000, igst = Num 180, cgst = Num 0, sgst = Num 0,
      totalAmount = Num 1180, gstRate = Num 18, productName = Some ''5" pipe'',
      quantity = Num 2\<rparr>\<close>

definition quotedOverrides :: "string \<rightharpoonup> string" where
  "quotedOverrides = [''Sales @ 18%'' \<mapsto> ''Sales <18> & more'']"

text \<open>The characters of a printed number: the digits, the point, the sign and \<open>NaN\<close>.\<close>

definition numChar :: "char \<Rightarrow> bool" where
  "numChar c = (isDigit c \<or> c = CHR ''.'' \<or> c = CHR ''-'' \<or> c = CHR ''N'' \<or> c = CHR ''a'')"

text \<open>The scenario's transaction without a customer name (and, as in the scenario, no state).\<close>

definition anonymousTransaction :: MarketplaceTransaction where
  "anonymousTransaction =
     \<lparr>date = Some ''2024-04-15'', invoiceNo = Some ''INV001'', customerName = Some [],
      state = Some [], taxableValue = Num 1000, igst = Num 180, cgst = Num 0, sgst = Num 0,
      totalAmount = Num 18000, gstRate = Num 18, productName = Some ''Widget'',
      quantity = Num 2\<rparr>"

section \<open>Evaluating the printing functions\<close>

text \<open>Rewrite rules with which the simplifier prints a number given as a numeral.\<close>

lemma digitChar_simps:
  "digitChar 0 = CHR ''0''" "digitChar (Suc 0) = CHR ''1''" "digitChar 1 = CHR ''1''"
  "digitChar 2 = CHR ''2''" "digitChar 3 = CHR ''3''" "digitChar 4 = CHR ''4''"
  "digitChar 5 = CHR ''5''" "digitChar 6 = CHR ''6''" "digitChar 7 = CHR ''7''"
  "digitChar 8 = CHR ''8''" "digitChar 9 = CHR ''9''"
  by code_simp+

lemma showNat_numeral:
  "showNat (numeral k) =
     (if numeral k < (10::nat) then [digitChar (numeral k)]
      else showNat (numeral k div 10) @ [digitChar (numeral k mod 10)])"
  by (rule showNat.simps)

lemma showNat_small: "showNat 0 = ''0''" "showNat (Suc 0) = ''1''" "showNat 1 = ''1''"
  by (simp_all add: showNat.simps [of 0] showNat.simps [of "Suc 0"] showNat.simps [of 1] digitChar_simps)

lemma floor_rat_numeral:
  "\<lfloor>(numeral a :: rat) / numeral b\<rfloor> = numeral a div numeral b"
  using floor_divide_of_int_eq [of "numeral a" "numeral b", where ?'a = rat] by simp

lemma floor_rat_one_numeral:
  "\<lfloor>(1 :: rat) / numeral b\<rfloor> = 1 div numeral b"
  using floor_divide_of_int_eq [of 1 "numeral b", where ?'a = rat] by simp

lemma fracDigits_numeral:
  "fracDigits (numeral k) f =
     (if f = 0 then []
      else digitChar (nat \<lfloor>f * 10\<rfloor>)
           # fracDigits (pred_numeral k) (f * 10 - of_int \<lfloor>f * 10\<rfloor>))"
  by (simp add: numeral_eq_Suc)

lemmas show_simps = digitChar_simps showNat_numeral showNat_small showPos_def Let_def
  floor_rat_numeral floor_rat_one_numeral fracDigits_numeral

section \<open>Validation: the errors object\<close>

text \<open>
  The first loop changes \<open>errors\<close> and \<open>usedHeaders\<close> in a way that depends on the mapping
  only; samples and warnings never feed back into them.
\<close>

lemma validateKey_errors:
  "errors (fst (validateKey dp files m k s)) =
     (if k \<in> set REQUIRED_FIELDS \<and> m k = []
      then AList.update k ''This field is required for Tally import.'' (errors (fst s))
      else errors (fst s))"
  by (simp add: validateKey_def Let_def)

lemma validateKey_used:
  "snd (validateKey dp files m k s) =
     (if m k = [] then snd s
      else AList.map_entry (m k) (\<lambda>ks. ks @ [k])
             (if map_of (snd s) (m k) = None then AList.update (m k) [] (snd s) else snd s))"
  by (simp add: validateKey_def Let_def)

lemma pass1_errors:
  "map_of (errors (fst (fold (validateKey dp files m) ks s))) k =
     (if k \<in> set ks \<and> k \<in> set REQUIRED_FIELDS \<and> m k = []
      then Some ''This field is required for Tally import.''
      else map_of (errors (fst s)) k)"
proof (induction ks arbitrary: s)
  case Nil
  show ?case by simp
next
  case (Cons a ks)
  show ?case
    by (auto simp add: Cons.IH validateKey_errors AList.update_conv')
qed

lemma pass1_used:
  "map_of (snd (fold (validateKey dp files m) ks s)) h =
     (if h \<noteq> [] \<and> filter (\<lambda>k. m k = h) ks \<noteq> []
      then Some ((case map_of (snd s) h of None \<Rightarrow> [] | Some l \<Rightarrow> l) @ filter (\<lambda>k. m k = h) ks)
      else map_of (snd s) h)"
proof (induction ks arbitrary: s)
  case Nil
  show ?case by simp
next
  case (Cons a ks)
  show ?case
    by (auto simp add: Cons.IH validateKey_used AList.update_conv' AList.map_of_map_entry
          split: option.splits)
qed

lemma pass1_used_distinct:
  "distinct (map fst (snd s)) \<Longrightarrow> distinct (map fst (snd (fold (validateKey dp files m) ks s)))"
proof (induction ks arbitrary: s)
  case Nil
  then show ?case by simp
next
  case (Cons a ks)
  have "distinct (map fst (snd (validateKey dp files m a s)))"
    using Cons.prems
    by (simp add: validateKey_used AList.distinct_map_entry AList.distinct_update)
  then show ?case by (simp add: Cons.IH)
qed

lemma fold_update_map_of:
  "map_of (fold (\<lambda>key es. AList.update key (f key) es) ks errs) k =
     (if k \<in> set ks then Some (f k) else map_of errs k)"
  by (induction ks arbitrary: errs) (auto simp add: AList.update_conv')

lemma flagDuplicates_map_of:
  "map_of (flagDuplicates (h, ks) errs) k =
     (if length ks > 1 \<and> k \<in> set ks then Some (duplicateMessage h ks k) else map_of errs k)"
  by (simp add: flagDuplicates_def fold_update_map_of)

lemma pass2_errors:
  assumes "distinct (map fst used)"
    and "\<And>h ks k. (h, ks) \<in> set used \<Longrightarrow> k \<in> set ks \<Longrightarrow> m k = h"
  shows "map_of (fold flagDuplicates used errs) k =
     (case map_of used (m k) of
        Some ks \<Rightarrow> if length ks > 1 \<and> k \<in> set ks then Some (duplicateMessage (m k) ks k)
                   else map_of errs k
      | None \<Rightarrow> map_of errs k)"
  using assms
proof (induction used arbitrary: errs)
  case Nil
  show ?case by simp
next
  case (Cons e used)
  obtain h ks where e: "e = (h, ks)" by (cases e)
  have d: "distinct (map fst used)" and hn: "h \<notin> fst ` set used"
    using Cons.prems(1) e by auto
  have grp: "\<And>h' ks' k'. (h', ks') \<in> set used \<Longrightarrow> k' \<in> set ks' \<Longrightarrow> m k' = h'"
    using Cons.prems(2) by auto
  have head: "\<And>k'. k' \<in> set ks \<Longrightarrow> m k' = h"
    using Cons.prems(2) e by auto
  have IH: "map_of (fold flagDuplicates used (flagDuplicates e errs)) k =
     (case map_of used (m k) of
        Some ks \<Rightarrow> if length ks > 1 \<and> k \<in> set ks then Some (duplicateMessage (m k) ks k)
                   else map_of (flagDuplicates e errs) k
      | None \<Rightarrow> map_of (flagDuplicates e errs) k)"
    by (rule Cons.IH [OF d grp])
  show ?case
  proof (cases "m k = h")
    case True
    have "map_of used h = None"
      using hn by (simp add: map_of_eq_None_iff)
    then show ?thesis
      using True IH e by (simp add: flagDuplicates_map_of)
  next
    case False
    then have "k \<notin> set ks" using head by auto
    then show ?thesis
      using False IH e by (simp add: flagDuplicates_map_of split: option.splits)
  qed
qed

lemma mappingKeys_all: "k \<in> set mappingKeys"
  by (cases k) (simp_all add: mappingKeys_def)

lemma errors_final:
  "map_of (errors (validationResults dp files m)) k =
     (if m k = []
      then (if k \<in> set REQUIRED_FIELDS then Some ''This field is required for Tally import.'' else None)
      else if length (filter (\<lambda>k'. m k' = m k) mappingKeys) > 1
      then Some (duplicateMessage (m k) (filter (\<lambda>k'. m k' = m k) mappingKeys) k)
      else None)"
proof -
  define s0 :: "ValidationResults \<times> usedHeaders"
    where "s0 = (\<lparr>errors = [], warnings = [], samples = []\<rparr>, [])"
  define s where "s = fold (validateKey dp files m) mappingKeys s0"
  have used: "\<And>h. map_of (snd s) h =
     (if h \<noteq> [] \<and> filter (\<lambda>k. m k = h) mappingKeys \<noteq> []
      then Some (filter (\<lambda>k. m k = h) mappingKeys) else None)"
    unfolding s_def by (simp add: pass1_used s0_def)
  have dist: "distinct (map fst (snd s))"
    unfolding s_def by (rule pass1_used_distinct) (simp add: s0_def)
  have grp: "\<And>h ks k'. (h, ks) \<in> set (snd s) \<Longrightarrow> k' \<in> set ks \<Longrightarrow> m k' = h"
  proof -
    fix h ks k'
    assume "(h, ks) \<in> set (snd s)" and k': "k' \<in> set ks"
    then have "map_of (snd s) h = Some ks" using dist by simp
    then have "ks = filter (\<lambda>k. m k = h) mappingKeys"
      by (simp add: used split: if_splits)
    then show "m k' = h" using k' by simp
  qed
  have e1: "map_of (errors (fst s)) k =
     (if k \<in> set REQUIRED_FIELDS \<and> m k = []
      then Some ''This field is required for Tally import.'' else None)"
    unfolding s_def by (simp add: pass1_errors mappingKeys_all s0_def)
  have "errors (validationResults dp files m) = fold flagDuplicates (snd s) (errors (fst s))"
    by (simp add: validationResults_def s_def s0_def Let_def)
  then have "map_of (errors (validationResults dp files m)) k =
     (case map_of (snd s) (m k) of
        Some ks \<Rightarrow> if length ks > 1 \<and> k \<in> set ks then Some (duplicateMessage (m k) ks k)
                   else map_of (errors (fst s)) k
      | None \<Rightarrow> map_of (errors (fst s)) k)"
    by (simp add: pass2_errors [OF dist grp])
  then show ?thesis
    using mappingKeys_all [of k]
    by (auto simp add: used e1 filter_empty_conv)
qed

section \<open>Duplicate mappings\<close>

lemma joinWith_mem:
  "x \<in> set xs \<Longrightarrow> \<exists>pre post. joinWith sep xs = pre @ x @ post"
proof (induction sep xs rule: joinWith.induct)
  case (1 sep)
  then show ?case by simp
next
  case (2 sep y)
  then have "joinWith sep [y] = [] @ x @ []" by simp
  then show ?case by blast
next
  case (3 sep y z zs)
  show ?case
  proof (cases "x = y")
    case True
    then have "joinWith sep (y # z # zs) = [] @ x @ (sep @ joinWith sep (z # zs))" by simp
    then show ?thesis by blast
  next
    case False
    then have "x \<in> set (z # zs)" using "3.prems" by simp
    then obtain pre post where "joinWith sep (z # zs) = pre @ x @ post"
      using "3.IH" by blast
    then have "joinWith sep (y # z # zs) = (y @ sep @ pre) @ x @ post" by simp
    then show ?thesis by blast
  qed
qed

lemma humanize_keys:
  "map (\<lambda>k. humanize (keyName k)) mappingKeys =
     [''date'', ''invoice No'', ''customer Name'', ''state'', ''taxable Value'', ''igst'',
      ''cgst'', ''sgst'', ''total Amount'', ''gst Rate'', ''product Name'', ''quantity'']"
  by (simp add: mappingKeys_def humanize_def)

text \<open>
  Claim C5. When two distinct fields \<open>k1\<close> and \<open>k2\<close> are mapped to the same non-empty
  header \<open>h\<close>, the errors object has an entry for \<open>k1\<close> (and, by symmetry, for every field
  of the group): the duplicate-mapping message for \<open>h\<close>, which lists every other field
  mapped to \<open>h\<close>, \<open>k2\<close> among them, each with a space before every capital letter of its
  name. The entry is a critical error: it closes the gate of \<open>processMapping\<close>.
\<close>

theorem duplicate_header_errors:
  assumes "k1 \<noteq> k2" and "m k1 = h" and "m k2 = h" and "h \<noteq> []"
  shows \<open>map_of (errors (validationResults dp files m)) k1 =
           Some (''Duplicate mapping: "'' @ h @ ''" is also used for ''
                 @ joinWith '', '' (map (\<lambda>k. humanize (keyName k))
                                      (filter (\<lambda>k. m k = h \<and> k \<noteq> k1) mappingKeys))
                 @ ''.'')
         \<and> k2 \<in> set (filter (\<lambda>k. m k = h \<and> k \<noteq> k1) mappingKeys)
         \<and> (\<exists>pre post. map_of (errors (validationResults dp files m)) k1 =
                Some (pre @ humanize (keyName k2) @ post))
         \<and> hasCriticalErrors (validationResults dp files m)\<close>
proof -
  let ?grp = "filter (\<lambda>k. m k = h) mappingKeys"
  let ?others = "filter (\<lambda>k. m k = h \<and> k \<noteq> k1) mappingKeys"
  have in1: "k1 \<in> set ?grp" and in2: "k2 \<in> set ?grp"
    using assms mappingKeys_all by simp_all
  have "card {k1, k2} \<le> card (set ?grp)"
    using in1 in2 by (intro card_mono) auto
  also have "\<dots> \<le> length ?grp" by (rule card_length)
  finally have len: "length ?grp > 1" using assms(1) by simp
  have msg: "map_of (errors (validationResults dp files m)) k1 =
      Some (duplicateMessage h ?grp k1)"
    using assms len by (simp add: errors_final)
  have others: "filter (\<lambda>k. k \<noteq> k1) ?grp = ?others" by simp
  have k2o: "k2 \<in> set ?others"
    using assms mappingKeys_all by simp
  then have "humanize (keyName k2) \<in> set (map (\<lambda>k. humanize (keyName k)) ?others)"
    by (simp only: set_map) (rule imageI)
  then obtain pre post where
    "joinWith '', '' (map (\<lambda>k. humanize (keyName k)) ?others) = pre @ humanize (keyName k2) @ post"
    using joinWith_mem by blast
  then have "duplicateMessage h ?grp k1 =
      (''Duplicate mapping: '' @ [CHR 0x22] @ h @ [CHR 0x22] @ '' is also used for '' @ pre)
        @ humanize (keyName k2) @ (post @ ''.'')"
    by (simp add: duplicateMessage_def others)
  then have ex: "\<exists>pre post. map_of (errors (validationResults dp files m)) k1 =
      Some (pre @ humanize (keyName k2) @ post)"
    using msg by metis
  have "errors (validationResults dp files m) \<noteq> []"
    using msg by auto
  then have crit: "hasCriticalErrors (validationResults dp files m)"
    by (simp add: hasCriticalErrors_def)
  show ?thesis
    using msg k2o ex crit by (simp add: duplicateMessage_def others)
qed

theorem duplicate_header_errors_witness:
  \<open>map_of (errors (validationResults (\<lambda>d. None) [scenarioFile]
             (scenarioMapping(K_invoiceNo := ''Name'')))) K_invoiceNo
     = Some ''Duplicate mapping: "Name" is also used for customer Name.''
   \<and> map_of (errors (validationResults (\<lambda>d. None) [scenarioFile]
             (scenarioMapping(K_invoiceNo := ''Name'')))) K_customerName
     = Some ''Duplicate mapping: "Name" is also used for invoice No.''\<close>
  using duplicate_header_errors [of K_invoiceNo K_customerName
          "scenarioMapping(K_invoiceNo := ''Name'')" "''Name''" "\<lambda>d. None" "[scenarioFile]"]
        duplicate_header_errors [of K_customerName K_invoiceNo
          "scenarioMapping(K_invoiceNo := ''Name'')" "''Name''" "\<lambda>d. None" "[scenarioFile]"]
  by (simp add: scenarioMapping_def blankMapping_def mappingKeys_def humanize_def)

section \<open>Required fields, the gate and the scenario\<close>

lemma errors_empty_iff:
  "errors (validationResults dp files m) = [] \<longleftrightarrow>
     (\<forall>k. map_of (errors (validationResults dp files m)) k = None)"
  by (metis map_of_eq_empty_iff)

lemma scenario_no_errors: "errors (validationResults dp files scenarioMapping) = []"
  unfolding errors_empty_iff
proof
  fix k
  show "map_of (errors (validationResults dp files scenarioMapping)) k = None"
    by (cases k)
       (simp_all add: errors_final scenarioMapping_def blankMapping_def mappingKeys_def
          REQUIRED_FIELDS_def)
qed

lemmas build_row_defs =
  buildTransaction_def getVal_def scenarioFile_def scenarioMapping_def blankMapping_def
  scenarioHeaders_def scenarioRow_def nth_opt_def parseFloatSafe_def bindE_def
  stripNonNumeric_def parseFloat_def scanDecimal_def isDigit_def digitsVal_def digitVal_def
  numOr_def scenarioTransaction_def

lemma scenario_row:
  "buildTransaction scenarioFile scenarioMapping scenarioRow = Inr scenarioTransaction"
  by (simp add: build_row_defs)

lemma processMapping_gate:
  "processMapping dp st =
     (if errors (validationResults dp (uploadedFiles st) (mapping st)) = []
      then bindE (buildTransactions (mapping st) (uploadedFiles st))
             (\<lambda>allProcessed. Inr (st\<lparr>transactions := allProcessed, isProcessing := False,
                                      step := REVIEW, expandedRowIndex := None\<rparr>))
      else Inr st)"
  by (simp add: processMapping_def hasCriticalErrors_def)

text \<open>
  Claim C7. The scenario mapping applied to the scenario row, in a file whose headers are
  in the order of the row, gives exactly the expected transaction (with the invoice number
  and the customer of the row, and an empty state); \<open>processMapping\<close> on a state that holds
  this file and this mapping passes the gate and stores that one transaction.
\<close>

theorem scenario_transaction:
  "buildTransaction scenarioFile scenarioMapping scenarioRow =
     Inr \<lparr>date = Some ''2024-04-15'', invoiceNo = Some ''INV001'', customerName = Some ''Alice'',
          state = Some [], taxableValue = Num 1000, igst = Num 180, cgst = Num 0, sgst = Num 0,
          totalAmount = Num 18000, gstRate = Num 18, productName = Some ''Widget'',
          quantity = Num 2\<rparr>
   \<and> processMapping dp (initialState\<lparr>uploadedFiles := [scenarioFile], mapping := scenarioMapping\<rparr>) =
     Inr (initialState
          \<lparr>uploadedFiles := [scenarioFile], mapping := scenarioMapping,
           transactions :=
             [\<lparr>date = Some ''2024-04-15'', invoiceNo = Some ''INV001'',
               customerName = Some ''Alice'', state = Some [], taxableValue = Num 1000,
               igst = Num 180, cgst = Num 0, sgst = Num 0, totalAmount = Num 18000,
               gstRate = Num 18, productName = Some ''Widget'', quantity = Num 2\<rparr>],
           step := REVIEW\<rparr>)"
proof -
  have row: "buildTransaction scenarioFile scenarioMapping scenarioRow = Inr scenarioTransaction"
    by (rule scenario_row)
  have all: "buildTransactions scenarioMapping [scenarioFile] = Inr [scenarioTransaction]"
    using row by (simp add: buildTransactions_def appendFile_def bindE_def scenarioFile_def)
  show ?thesis
    using row all
    by (simp add: processMapping_gate scenario_no_errors bindE_def initialState_def
        scenarioTransaction_def)
qed

text \<open>
  Claim C6. A required field (one of the eight listed) that is mapped to the empty string
  has an entry in the errors object, the required-field message; there are critical errors
  exactly when the errors object is not empty, and \<open>processMapping\<close> builds transactions
  exactly when it is empty (otherwise it returns without changing the state).
\<close>

theorem required_field_errors:
  "(k \<in> set REQUIRED_FIELDS \<and> m k = [] \<longrightarrow>
      map_of (errors (validationResults dp files m)) k
        = Some ''This field is required for Tally import.'')
   \<and> REQUIRED_FIELDS = [K_date, K_invoiceNo, K_customerName, K_taxableValue, K_totalAmount,
        K_gstRate, K_productName, K_quantity]
   \<and> (hasCriticalErrors (validationResults dp files m)
        \<longleftrightarrow> errors (validationResults dp files m) \<noteq> [])
   \<and> processMapping dp st =
       (if errors (validationResults dp (uploadedFiles st) (mapping st)) = []
        then bindE (buildTransactions (mapping st) (uploadedFiles st))
               (\<lambda>allProcessed. Inr (st\<lparr>transactions := allProcessed, isProcessing := False,
                                        step := REVIEW, expandedRowIndex := None\<rparr>))
        else Inr st)"
  using processMapping_gate [of dp st]
  by (simp add: errors_final hasCriticalErrors_def REQUIRED_FIELDS_def)

theorem required_field_errors_witness:
  "map_of (errors (validationResults (\<lambda>d. None) [] blankMapping)) K_date
     = Some ''This field is required for Tally import.''
   \<and> processMapping (\<lambda>d. None) initialState = Inr initialState"
proof -
  have req: "K_date \<in> set REQUIRED_FIELDS \<and> blankMapping K_date = []"
    by (simp add: REQUIRED_FIELDS_def blankMapping_def)
  note inst = required_field_errors [of K_date blankMapping "\<lambda>d. None" "[]" initialState]
  have e: "map_of (errors (validationResults (\<lambda>d. None) [] blankMapping)) K_date
     = Some ''This field is required for Tally import.''"
    using inst req by blast
  then have "errors (validationResults (\<lambda>d. None) [] blankMapping) \<noteq> []"
    by auto
  then have "processMapping (\<lambda>d. None) initialState = Inr initialState"
    using inst by (simp add: initialState_def)
  then show ?thesis using e by simp
qed

section \<open>The quantity of a built transaction\<close>

lemma indexOf_None_iff: "indexOf xs x = None \<longleftrightarrow> x \<notin> set xs"
  by (induction xs) auto

lemma parseFloatSafe_Inr:
  "parseFloatSafe val = Inr n \<Longrightarrow>
     \<exists>v. val = Some v \<and> n = numOr (parseFloat (stripNonNumeric v)) (Num 0)"
  by (auto simp add: parseFloatSafe_def split: option.splits)

lemma buildTransaction_quantity:
  assumes "buildTransaction file m row = Inr tx"
  shows "\<exists>v. getVal file m row K_quantity = Some v
           \<and> quantity tx = numOr (numOr (parseFloat (stripNonNumeric v)) (Num 0)) (Num 1)"
proof -
  from assms obtain qt where
    q: "parseFloatSafe (getVal file m row K_quantity) = Inr qt" and
    t: "quantity tx = numOr qt (Num 1)"
    by (auto simp add: buildTransaction_def bindE_def split: sum.splits)
  from parseFloatSafe_Inr [OF q] t show ?thesis by auto
qed

lemma numOr_quantity:
  "numOr (numOr n (Num 0)) (Num 1) = (if truthy n then n else Num 1)"
  by (simp add: numOr_def)

lemma truthy_cases: "truthy n \<longleftrightarrow> n \<noteq> NaN \<and> n \<noteq> Num 0"
  by (cases n) auto

lemma mapE_Inr_mem:
  "mapE f xs = Inr ys \<Longrightarrow> y \<in> set ys \<Longrightarrow> \<exists>x \<in> set xs. f x = Inr y"
proof (induction xs arbitrary: ys)
  case Nil
  then show ?case by simp
next
  case (Cons a xs)
  then show ?case
    by (auto simp add: bindE_def split: sum.splits)
qed

lemma appendFile_Inl: "foldl (appendFile m) (Inl e) files = Inl e"
  by (induction files) (simp_all add: appendFile_def bindE_def)

lemma appendFile_mem:
  "foldl (appendFile m) (Inr acc0) files = Inr txs \<Longrightarrow> tx \<in> set txs
   \<Longrightarrow> tx \<in> set acc0
       \<or> (\<exists>file \<in> set files. \<exists>row \<in> set (rawData file). buildTransaction file m row = Inr tx)"
proof (induction files arbitrary: acc0)
  case Nil
  then show ?case by simp
next
  case (Cons f files)
  show ?case
  proof (cases "mapE (buildTransaction f m) (rawData f)")
    case (Inl e)
    then have "appendFile m (Inr acc0) f = Inl e"
      by (simp add: appendFile_def bindE_def)
    then show ?thesis
      using Cons.prems(1) by (simp add: appendFile_Inl)
  next
    case (Inr fts)
    then have "appendFile m (Inr acc0) f = Inr (acc0 @ fts)"
      by (simp add: appendFile_def bindE_def)
    then have "foldl (appendFile m) (Inr (acc0 @ fts)) files = Inr txs"
      using Cons.prems(1) by simp
    from Cons.IH [OF this Cons.prems(2)]
    show ?thesis
      using mapE_Inr_mem [OF Inr] by auto
  qed
qed

lemma buildTransactions_mem:
  "buildTransactions m files = Inr txs \<Longrightarrow> tx \<in> set txs
   \<Longrightarrow> \<exists>file \<in> set files. \<exists>row \<in> set (rawData file). buildTransaction file m row = Inr tx"
  using appendFile_mem [of m "[]" files txs tx]
  by (simp add: buildTransactions_def)

lemma negative_row:
  "buildTransaction (scenarioFile\<lparr>rawData := [negativeQtyRow]\<rparr>) scenarioMapping negativeQtyRow
     = Inr (scenarioTransaction\<lparr>quantity := Num (- 2)\<rparr>)"
  by (simp add: build_row_defs negativeQtyRow_def)

text \<open>
  Claim C2, as the specification states it, fails for a negative quantity: the cell
  \<open>-2\<close> parses to \<open>-2\<close>, which is truthy, so \<open>|| 1\<close> keeps it and the built transaction
  has quantity \<open>-2\<close>, not \<open>1\<close>.
\<close>

theorem quantity_negative_counterexample:
  "getVal (scenarioFile\<lparr>rawData := [negativeQtyRow]\<rparr>) scenarioMapping negativeQtyRow K_quantity
     = Some ''-2''
   \<and> parseFloat (stripNonNumeric ''-2'') = Num (- 2)
   \<and> processMapping (\<lambda>d. None)
        (initialState\<lparr>uploadedFiles := [scenarioFile\<lparr>rawData := [negativeQtyRow]\<rparr>],
                       mapping := scenarioMapping\<rparr>)
     = Inr (initialState
            \<lparr>uploadedFiles := [scenarioFile\<lparr>rawData := [negativeQtyRow]\<rparr>],
             mapping := scenarioMapping,
             transactions := [scenarioTransaction\<lparr>quantity := Num (- 2)\<rparr>],
             step := REVIEW\<rparr>)
   \<and> quantity (scenarioTransaction\<lparr>quantity := Num (- 2)\<rparr>) \<noteq> Num 1"
proof -
  have all: "buildTransactions scenarioMapping [scenarioFile\<lparr>rawData := [negativeQtyRow]\<rparr>]
      = Inr [scenarioTransaction\<lparr>quantity := Num (- 2)\<rparr>]"
    using negative_row by (simp add: buildTransactions_def appendFile_def bindE_def)
  have g: "getVal (scenarioFile\<lparr>rawData := [negativeQtyRow]\<rparr>) scenarioMapping negativeQtyRow K_quantity
     = Some ''-2''"
    by (simp add: build_row_defs negativeQtyRow_def)
  have p: "parseFloat (stripNonNumeric ''-2'') = Num (- 2)"
    by (simp add: build_row_defs)
  show ?thesis
    using all g p
    by (simp add: processMapping_gate scenario_no_errors bindE_def initialState_def)
qed

text \<open>
  Claim C2, amended. In a transaction built from a row, the quantity is \<open>1\<close> when the
  file has no header equal to the one mapped to quantity (the resolved cell is then empty),
  when the resolved cell has no number to parse, and when it parses to \<open>0\<close>; a cell that
  parses to any other number, negative ones included, gives that number. No transaction
  that \<open>buildTransactions\<close> returns has quantity \<open>0\<close> or \<open>NaN\<close>.
\<close>

theorem quantity_default:
  "(buildTransaction file m row = Inr tx \<longrightarrow>
      (m K_quantity \<notin> set (headers file) \<longrightarrow> quantity tx = Num 1)
    \<and> (\<forall>v. getVal file m row K_quantity = Some v \<longrightarrow>
          (parseFloat (stripNonNumeric v) = NaN \<longrightarrow> quantity tx = Num 1)
        \<and> (parseFloat (stripNonNumeric v) = Num 0 \<longrightarrow> quantity tx = Num 1)
        \<and> (\<forall>q. parseFloat (stripNonNumeric v) = Num q \<and> q \<noteq> 0 \<longrightarrow> quantity tx = Num q)))
   \<and> (buildTransactions m files = Inr txs \<longrightarrow>
        (\<forall>t \<in> set txs. quantity t \<noteq> Num 0 \<and> quantity t \<noteq> NaN))"
proof (intro conjI impI)
  assume b: "buildTransaction file m row = Inr tx"
  from buildTransaction_quantity [OF b] obtain v where
    v: "getVal file m row K_quantity = Some v" and
    q: "quantity tx = (if truthy (parseFloat (stripNonNumeric v))
                       then parseFloat (stripNonNumeric v) else Num 1)"
    by (auto simp add: numOr_quantity)
  show "\<forall>v. getVal file m row K_quantity = Some v \<longrightarrow>
          (parseFloat (stripNonNumeric v) = NaN \<longrightarrow> quantity tx = Num 1)
        \<and> (parseFloat (stripNonNumeric v) = Num 0 \<longrightarrow> quantity tx = Num 1)
        \<and> (\<forall>q. parseFloat (stripNonNumeric v) = Num q \<and> q \<noteq> 0 \<longrightarrow> quantity tx = Num q)"
    using v q by auto
  assume "m K_quantity \<notin> set (headers file)"
  then have "getVal file m row K_quantity = Some []"
    by (simp add: getVal_def indexOf_None_iff [symmetric])
  then have "v = []" using v by simp
  then show "quantity tx = Num 1"
    using q by (simp add: stripNonNumeric_def parseFloat_def scanDecimal_def)
next
  assume bs: "buildTransactions m files = Inr txs"
  show "\<forall>t \<in> set txs. quantity t \<noteq> Num 0 \<and> quantity t \<noteq> NaN"
  proof
    fix t assume "t \<in> set txs"
    from buildTransactions_mem [OF bs this] obtain f r where
      "buildTransaction f m r = Inr t" by blast
    from buildTransaction_quantity [OF this] obtain v where
      "quantity t = (if truthy (parseFloat (stripNonNumeric v))
                     then parseFloat (stripNonNumeric v) else Num 1)"
      by (auto simp add: numOr_quantity)
    then show "quantity t \<noteq> Num 0 \<and> quantity t \<noteq> NaN"
      by (auto simp add: truthy_cases split: if_splits)
  qed
qed

theorem quantity_default_witness:
  "buildTransaction scenarioFile scenarioMapping (scenarioRow[6 := ''0''])
     = Inr (scenarioTransaction\<lparr>quantity := Num 1\<rparr>)
   \<and> getVal scenarioFile scenarioMapping (scenarioRow[6 := ''0'']) K_quantity = Some ''0''
   \<and> parseFloat (stripNonNumeric ''0'') = Num 0
   \<and> buildTransactions scenarioMapping [scenarioFile] = Inr [scenarioTransaction]
   \<and> quantity scenarioTransaction \<noteq> Num 0"
proof -
  have b: "buildTransaction scenarioFile scenarioMapping (scenarioRow[6 := ''0''])
     = Inr (scenarioTransaction\<lparr>quantity := Num 1\<rparr>)"
    by (simp add: build_row_defs)
  have g: "getVal scenarioFile scenarioMapping (scenarioRow[6 := ''0'']) K_quantity = Some ''0''"
    by (simp add: build_row_defs)
  have p: "parseFloat (stripNonNumeric ''0'') = Num 0"
    by (simp add: build_row_defs)
  have all: "buildTransactions scenarioMapping [scenarioFile] = Inr [scenarioTransaction]"
    using scenario_row by (simp add: buildTransactions_def appendFile_def bindE_def scenarioFile_def)
  note inst = quantity_default [of scenarioFile scenarioMapping "scenarioRow[6 := ''0'']"
      "scenarioTransaction\<lparr>quantity := Num 1\<rparr>" "[scenarioFile]" "[scenarioTransaction]"]
  have "quantity scenarioTransaction \<noteq> Num 0"
    using inst all by simp
  then show ?thesis using b g p all by simp
qed

section \<open>The rate of the default ledger names\<close>

lemma numToString_18: "numToString (Num 18) = ''18''"
  by code_simp

lemma numToString_9: "numToString (Num 9) = ''9''"
  by code_simp







section \<open>The characters of printed numbers and dates\<close>

text \<open>
  \<open>toFixed2\<close>, \<open>numToString\<close> and \<open>formatDateForTally\<close> print digits, the point, the sign
  and \<open>NaN\<close> only, so no number or date of a voucher holds a character that \<open>sanitize\<close>
  replaces.
\<close>

lemma digitChar_digit: "d < 10 \<Longrightarrow> isDigit (digitChar d)"
proof -
  assume "d < 10"
  then have "d \<in> {0, 1, 2, 3, 4, 5, 6, 7, 8, 9}" by auto
  then show ?thesis using digitChar_simps by (auto simp add: isDigit_def)
qed

lemma isDigit_numChar: "isDigit c \<Longrightarrow> numChar c"
  by (simp add: numChar_def)

lemma list_all_weaken: "list_all P xs \<Longrightarrow> (\<And>x. P x \<Longrightarrow> Q x) \<Longrightarrow> list_all Q xs"
  by (induction xs) simp_all

lemma list_all_take_drop:
  "list_all P xs \<Longrightarrow> list_all P (take k xs) \<and> list_all P (drop k xs)"
  by (metis append_take_drop_id list_all_append)

lemma showNat_digits: "list_all isDigit (showNat n)"
proof (induction n rule: showNat.induct)
  case (1 n)
  show ?case
  proof (cases "n < 10")
    case True
    then show ?thesis
      using digitChar_digit [of n] by (simp add: showNat.simps [of n])
  next
    case False
    have "n mod 10 < 10" by simp
    then have "isDigit (digitChar (n mod 10))" by (rule digitChar_digit)
    then show ?thesis
      using False "1.IH" by (simp add: showNat.simps [of n])
  qed
qed

lemma fracDigits_digits:
  "0 \<le> f \<Longrightarrow> f < 1 \<Longrightarrow> list_all isDigit (fracDigits k f)"
proof (induction k arbitrary: f)
  case 0
  then show ?case by simp
next
  case (Suc k)
  have lo: "0 \<le> \<lfloor>f * 10\<rfloor>" using Suc.prems by simp
  have hi: "\<lfloor>f * 10\<rfloor> < 10" using Suc.prems by (simp add: floor_less_iff)
  have d: "isDigit (digitChar (nat \<lfloor>f * 10\<rfloor>))"
  proof (rule digitChar_digit)
    show "nat \<lfloor>f * 10\<rfloor> < 10" using lo hi by linarith
  qed
  have r0: "0 \<le> f * 10 - of_int \<lfloor>f * 10\<rfloor>" by simp
  have r1: "f * 10 - of_int \<lfloor>f * 10\<rfloor> < 1" by linarith
  show ?case
    using d Suc.IH [OF r0 r1] by simp
qed

lemma showPos_chars: "list_all numChar (showPos q)"
proof -
  have r0: "0 \<le> q - of_int \<lfloor>q\<rfloor>" by simp
  have r1: "q - of_int \<lfloor>q\<rfloor> < 1" by linarith
  have a: "list_all numChar (showNat (nat \<lfloor>q\<rfloor>))"
    by (rule list_all_weaken [OF showNat_digits isDigit_numChar])
  have b: "list_all numChar (fracDigits 20 (q - of_int \<lfloor>q\<rfloor>))"
    by (rule list_all_weaken [OF fracDigits_digits [OF r0 r1] isDigit_numChar])
  have p: "numChar (CHR ''.'')" by (simp add: numChar_def)
  show ?thesis
    using a b p by (simp add: showPos_def Let_def)
qed

lemma numToString_chars: "list_all numChar (numToString n)"
proof (cases n)
  case NaN
  then show ?thesis by (simp add: numChar_def)
next
  case (Num q)
  have m: "numChar (CHR ''-'')" by (simp add: numChar_def)
  show ?thesis
    using Num m showPos_chars [of q] showPos_chars [of "- q"] by simp
qed

lemma toFixed2_chars: "list_all numChar (toFixed2 n)"
proof (cases n)
  case NaN
  then show ?thesis by (simp add: numChar_def)
next
  case (Num q)
  define ds where "ds = showNat (nat \<lfloor>\<bar>q\<bar> * 100 + 1 / 2\<rfloor>)"
  define ds' where "ds' = replicate (3 - length ds) (CHR ''0'') @ ds"
  have z: "numChar (CHR ''0'')" "numChar (CHR ''.'')" "numChar (CHR ''-'')"
    by (simp_all add: numChar_def isDigit_def)
  have "list_all numChar ds"
    unfolding ds_def by (rule list_all_weaken [OF showNat_digits isDigit_numChar])
  then have p: "list_all numChar ds'"
    unfolding ds'_def using z by (auto simp add: list_all_iff)
  have e: "toFixed2 n = (if q < 0 then ''-'' else [])
      @ take (length ds' - 2) ds' @ ''.'' @ drop (length ds' - 2) ds'"
    using Num by (simp add: Let_def ds_def ds'_def)
  show ?thesis
    using z list_all_take_drop [OF p, of "length ds' - 2"] by (simp add: e)
qed

lemma padStart2_chars: "list_all isDigit s \<Longrightarrow> list_all numChar (padStart2 s)"
proof -
  assume "list_all isDigit s"
  then have "list_all numChar s" by (rule list_all_weaken [OF _ isDigit_numChar])
  moreover have "numChar (CHR ''0'')" by (simp add: numChar_def isDigit_def)
  ultimately show ?thesis by (auto simp add: padStart2_def list_all_iff)
qed

lemma formatDateForTally_chars: "list_all numChar (formatDateForTally dp d)"
proof (cases "dp d")
  case None
  then show ?thesis by (simp add: formatDateForTally_def numChar_def isDigit_def)
next
  case (Some t)
  obtain y m dd where t: "t = (y, m, dd)" by (cases t)
  show ?thesis
    using Some t padStart2_chars [OF showNat_digits [of "m + 1"]]
      padStart2_chars [OF showNat_digits [of dd]] numToString_chars [of "Num (of_int y)"]
    by (simp add: formatDateForTally_def del: numToString.simps)
qed

section \<open>Escaping of the inserted text\<close>

lemma xmlEscaped_escapeChar:
  "xmlEscaped (escapeChar c @ rest) = xmlEscaped rest"
  by (simp add: escapeChar_def startsEntity_def entityNames_def)

lemma xmlEscaped_concat: "xmlEscaped (concat (map escapeChar s))"
  by (induction s) (simp_all add: xmlEscaped_escapeChar)

lemma xmlEscaped_sanitize: "xmlEscaped (sanitize v)"
  by (cases v) (simp_all add: xmlEscaped_concat)

lemma unescape_escapeChar:
  "unescape (escapeChar c @ rest) = c # unescape rest"
  by (simp add: escapeChar_def)

lemma unescape_concat: "unescape (concat (map escapeChar s)) = s"
  by (induction s) (simp_all add: unescape_escapeChar)

lemma unescape_sanitize: "unescape (sanitize (Some s)) = s"
  by (simp add: unescape_concat)

lemma count_replicate_other: "x \<noteq> c \<Longrightarrow> count_list (replicate n x) c = 0"
  by (induction n) simp_all

lemma count_ln:
  "c \<noteq> CHR 0x0A \<Longrightarrow> c \<noteq> CHR '' '' \<Longrightarrow> count_list (xmlLine n s) c = count_list s c"
  by (simp add: xmlLine_def count_replicate_other)

lemma xmlEscaped_no_markup:
  "xmlEscaped s \<Longrightarrow> c \<in> set [CHR ''<'', CHR ''>'', CHR 0x27, CHR 0x22] \<Longrightarrow> c \<notin> set s"
proof (induction s)
  case Nil
  then show ?case by simp
next
  case (Cons a s)
  then show ?case by (auto split: if_splits)
qed

lemma count_escaped:
  "xmlEscaped s \<Longrightarrow> c \<in> set [CHR ''<'', CHR ''>'', CHR 0x27, CHR 0x22] \<Longrightarrow> count_list s c = 0"
  using xmlEscaped_no_markup [of s c] by (simp add: count_list_0_iff)

lemma numChar_not_special:
  "numChar x \<Longrightarrow> x \<notin> set [CHR ''<'', CHR ''>'', CHR ''&'', CHR 0x27, CHR 0x22]"
  by (auto simp add: numChar_def isDigit_def)

lemma count_numChars:
  assumes "list_all numChar s" and "c \<in> set [CHR ''<'', CHR ''>'', CHR ''&'', CHR 0x27, CHR 0x22]"
  shows "count_list s c = 0"
proof -
  have "c \<notin> set s"
  proof
    assume "c \<in> set s"
    then have "numChar c" using assms(1) by (simp add: list_all_iff)
    then show False using numChar_not_special assms(2) by blast
  qed
  then show ?thesis by (simp add: count_list_0_iff)
qed

lemma take_prefix_append:
  assumes "take (length e) cs = e"
  shows "take (length e) (cs @ b) = e"
proof -
  have "length (take (length e) cs) = length e" using assms by simp
  then have "length e \<le> length cs" by simp
  then show ?thesis using assms by simp
qed

lemma startsEntity_append: "startsEntity cs \<Longrightarrow> startsEntity (cs @ b)"
  unfolding startsEntity_def list_ex_iff
  using take_prefix_append by blast

lemma ampsEscaped_append: "ampsEscaped a \<Longrightarrow> ampsEscaped b \<Longrightarrow> ampsEscaped (a @ b)"
  by (induction a) (simp_all add: startsEntity_append)

lemma ampsEscaped_no_amp: "CHR ''&'' \<notin> set s \<Longrightarrow> ampsEscaped s"
  by (induction s) auto

lemma ampsEscaped_ln: "ampsEscaped s \<Longrightarrow> ampsEscaped (xmlLine n s)"
proof -
  assume s: "ampsEscaped s"
  have "ampsEscaped (CHR 0x0A # replicate n (CHR '' ''))"
    by (rule ampsEscaped_no_amp) simp
  then show ?thesis
    using ampsEscaped_append [OF _ s, of "CHR 0x0A # replicate n (CHR '' '')"]
    by (simp add: xmlLine_def)
qed

lemma xmlEscaped_ampsEscaped: "xmlEscaped s \<Longrightarrow> ampsEscaped s"
  by (induction s) (simp_all split: if_splits)

lemma ampsEscaped_numChars: "list_all numChar s \<Longrightarrow> ampsEscaped s"
proof (rule ampsEscaped_no_amp)
  assume "list_all numChar s"
  then have "count_list s (CHR ''&'') = 0" by (rule count_numChars) simp
  then show "CHR ''&'' \<notin> set s" by (simp add: count_list_0_iff)
qed

lemma getLedgerName_escaped: "xmlEscaped (getLedgerName ov n)"
  by (simp add: getLedgerName_def xmlEscaped_sanitize del: sanitize.simps)

lemma locals_escaped:
  "xmlEscaped (invoiceNo' tx)" "xmlEscaped (partyName tx)" "xmlEscaped (stateName tx)"
  "xmlEscaped (productName' tx)" "xmlEscaped (salesLedger ov tx)" "xmlEscaped (igstLedger ov tx)"
  "xmlEscaped (cgstLedger ov tx)" "xmlEscaped (sgstLedger ov tx)"
  by (simp_all add: invoiceNo'_def partyName_def stateName_def productName'_def salesLedger_def
      igstLedger_def cgstLedger_def sgstLedger_def getLedgerName_escaped xmlEscaped_sanitize
      del: sanitize.simps)

lemmas hole_counts =
  count_escaped [OF locals_escaped(1)] count_escaped [OF locals_escaped(2)]
  count_escaped [OF locals_escaped(3)] count_escaped [OF locals_escaped(4)]
  count_escaped [OF locals_escaped(5)] count_escaped [OF locals_escaped(6)]
  count_escaped [OF locals_escaped(7)] count_escaped [OF locals_escaped(8)]
  count_numChars [OF toFixed2_chars] count_numChars [OF numToString_chars]
  count_numChars [OF formatDateForTally_chars]

lemma head_counts:
  "count_list (voucherHead dp tx) (CHR ''<'') = 16"
  "count_list (voucherHead dp tx) (CHR ''>'') = 16"
  "count_list (voucherHead dp tx) (CHR 0x22) = 8"
  "count_list (voucherHead dp tx) (CHR 0x27) = 0"
  by (simp_all add: voucherHead_def count_ln hole_counts)

lemma party_counts:
  "count_list (partyEntry tx) (CHR ''<'') = 9"
  "count_list (partyEntry tx) (CHR ''>'') = 9"
  "count_list (partyEntry tx) (CHR 0x22) = 0"
  "count_list (partyEntry tx) (CHR 0x27) = 0"
  by (simp_all add: partyEntry_def count_ln hole_counts del: toFixed2.simps)

lemma sales_counts:
  "count_list (salesEntry ov tx) (CHR ''<'') = 23"
  "count_list (salesEntry ov tx) (CHR ''>'') = 23"
  "count_list (salesEntry ov tx) (CHR 0x22) = 0"
  "count_list (salesEntry ov tx) (CHR 0x27) = 0"
  by (simp_all add: salesEntry_def count_ln hole_counts del: toFixed2.simps numToString.simps)

lemma taxEntry_counts:
  assumes "xmlEscaped l" and "list_all numChar a"
  shows "count_list (taxEntry l a) (CHR ''<'') = 8"
    "count_list (taxEntry l a) (CHR ''>'') = 8"
    "count_list (taxEntry l a) (CHR 0x22) = 0"
    "count_list (taxEntry l a) (CHR 0x27) = 0"
  by (simp_all add: taxEntry_def count_ln count_escaped [OF assms(1)] count_numChars [OF assms(2)])

lemma close_counts:
  "count_list voucherClose (CHR ''<'') = 2"
  "count_list voucherClose (CHR ''>'') = 2"
  "count_list voucherClose (CHR 0x22) = 0"
  "count_list voucherClose (CHR 0x27) = 0"
  by (simp_all add: voucherClose_def count_ln)

lemma header_counts:
  "count_list xmlHeader (CHR ''<'') = 17"
  "count_list xmlHeader (CHR ''>'') = 17"
  "count_list xmlHeader (CHR 0x22) = 2"
  "count_list xmlHeader (CHR 0x27) = 0"
  by (simp_all add: xmlHeader_def count_ln)

lemma footer_counts:
  "count_list xmlFooter (CHR ''<'') = 4"
  "count_list xmlFooter (CHR ''>'') = 4"
  "count_list xmlFooter (CHR 0x22) = 0"
  "count_list xmlFooter (CHR 0x27) = 0"
  by (simp_all add: xmlFooter_def count_ln)

lemma voucher_counts:
  "count_list (voucherXml dp ov tx) (CHR ''<'') = 50 + 8 * taxEntryCount tx"
  "count_list (voucherXml dp ov tx) (CHR ''>'') = 50 + 8 * taxEntryCount tx"
  "count_list (voucherXml dp ov tx) (CHR 0x22) = 8"
  "count_list (voucherXml dp ov tx) (CHR 0x27) = 0"
  by (simp_all add: voucherXml_def voucherOpen_def igstBlock_def cgstSgstBlock_def
      taxEntryCount_def head_counts party_counts sales_counts close_counts
      taxEntry_counts [OF locals_escaped(6) toFixed2_chars]
      taxEntry_counts [OF locals_escaped(7) toFixed2_chars]
      taxEntry_counts [OF locals_escaped(8) toFixed2_chars]
      del: toFixed2.simps)

lemma generateTallyXml_concat:
  "generateTallyXml dp txs ov = xmlHeader @ concat (map (voucherXml dp ov) txs) @ xmlFooter"
proof -
  have "\<And>acc. foldl (\<lambda>xml tx. xml @ voucherXml dp ov tx) acc txs
      = acc @ concat (map (voucherXml dp ov) txs)"
    by (induction txs) simp_all
  then show ?thesis by (simp add: generateTallyXml_def)
qed

lemma count_concat_map:
  "count_list (concat (map f xs)) c = (\<Sum>x\<leftarrow>xs. count_list (f x) c)"
  by (induction xs) simp_all

lemma document_counts:
  "count_list (generateTallyXml dp txs ov) (CHR ''<'') = 21 + (\<Sum>tx\<leftarrow>txs. 50 + 8 * taxEntryCount tx)"
  "count_list (generateTallyXml dp txs ov) (CHR ''>'') = 21 + (\<Sum>tx\<leftarrow>txs. 50 + 8 * taxEntryCount tx)"
  "count_list (generateTallyXml dp txs ov) (CHR 0x22) = 2 + 8 * length txs"
  "count_list (generateTallyXml dp txs ov) (CHR 0x27) = 0"
  by (simp_all add: generateTallyXml_concat count_concat_map voucher_counts header_counts
      footer_counts sum_list_triv)

lemmas amps_intros =
  ampsEscaped_append ampsEscaped_ln
  xmlEscaped_ampsEscaped [OF locals_escaped(1)] xmlEscaped_ampsEscaped [OF locals_escaped(2)]
  xmlEscaped_ampsEscaped [OF locals_escaped(3)] xmlEscaped_ampsEscaped [OF locals_escaped(4)]
  xmlEscaped_ampsEscaped [OF locals_escaped(5)] xmlEscaped_ampsEscaped [OF locals_escaped(6)]
  xmlEscaped_ampsEscaped [OF locals_escaped(7)] xmlEscaped_ampsEscaped [OF locals_escaped(8)]
  ampsEscaped_numChars [OF toFixed2_chars] ampsEscaped_numChars [OF numToString_chars]
  ampsEscaped_numChars [OF formatDateForTally_chars]

lemma head_amps: "ampsEscaped (voucherHead dp tx)"
  unfolding voucherHead_def by (intro amps_intros) simp_all

lemma party_amps: "ampsEscaped (partyEntry tx)"
  unfolding partyEntry_def by (intro amps_intros) simp_all

lemma sales_amps: "ampsEscaped (salesEntry ov tx)"
  unfolding salesEntry_def by (intro amps_intros) simp_all

lemma taxEntry_amps:
  assumes "xmlEscaped l" and "list_all numChar a"
  shows "ampsEscaped (taxEntry l a)"
  unfolding taxEntry_def
  by (intro ampsEscaped_append ampsEscaped_ln xmlEscaped_ampsEscaped [OF assms(1)]
      ampsEscaped_numChars [OF assms(2)]) simp_all

lemma close_amps: "ampsEscaped voucherClose"
  unfolding voucherClose_def by (intro amps_intros) simp_all

lemma header_amps: "ampsEscaped xmlHeader"
  unfolding xmlHeader_def by (intro amps_intros) simp_all

lemma footer_amps: "ampsEscaped xmlFooter"
  unfolding xmlFooter_def by (intro amps_intros) simp_all

lemma voucher_amps: "ampsEscaped (voucherXml dp ov tx)"
proof -
  have i: "ampsEscaped (if gt0 (igst tx) then igstBlock ov tx else [])"
    by (simp add: igstBlock_def taxEntry_amps [OF locals_escaped(6) toFixed2_chars]
        del: toFixed2.simps)
  have c: "ampsEscaped (if gt0 (cgst tx) then cgstSgstBlock ov tx else [])"
    by (simp add: cgstSgstBlock_def ampsEscaped_append
        taxEntry_amps [OF locals_escaped(7) toFixed2_chars]
        taxEntry_amps [OF locals_escaped(8) toFixed2_chars] del: toFixed2.simps)
  show ?thesis
    unfolding voucherXml_def voucherOpen_def
    by (intro ampsEscaped_append head_amps party_amps sales_amps close_amps i c)
qed

lemma concat_amps: "ampsEscaped (concat (map (voucherXml dp ov) txs))"
  by (induction txs) (simp_all add: ampsEscaped_append voucher_amps)

lemma document_amps: "ampsEscaped (generateTallyXml dp txs ov)"
  unfolding generateTallyXml_concat
  by (intro ampsEscaped_append header_amps concat_amps footer_amps)

lemma voucherXml_template:
  \<open>voucherXml dp ov tx =
       xmlLine 8 ''<TALLYMESSAGE xmlns:UDF="TallyUDF">''
       @ xmlLine 10 ''<VOUCHER VCHTYPE="Sales" ACTION="Create" OBJVIEW="Accounting Voucher View">''
       @ xmlLine 12 (''<DATE>'' @ formatDateForTally dp (date tx) @ ''</DATE>'')
       @ xmlLine 12 ''<VOUCHERTYPENAME>Sales</VOUCHERTYPENAME>''
       @ xmlLine 12 (''<REFERENCE>'' @ sanitize (invoiceNo tx) @ ''</REFERENCE>'')
       @ xmlLine 12 (''<PARTYLEDGERNAME>'' @ sanitize (Some (strOr (customerName tx) ''Cash'')) @ ''</PARTYLEDGERNAME>'')
       @ xmlLine 12 (''<STATENAME>'' @ sanitize (Some (strOr (state tx) ''Maharashtra'')) @ ''</STATENAME>'')
       @ xmlLine 12 ''<FBTPAYMENTTYPE>Default</FBTPAYMENTTYPE>''
       @ xmlLine 12 ''<PERSISTEDVIEW>Accounting Voucher View</PERSISTEDVIEW>''
       @ xmlLine 12 []
       @ xmlLine 12 ''<!-- Dr Party -->''
       @ xmlLine 12 ''<ALLLEDGERENTRIES.LIST>''
       @ xmlLine 14 (''<LEDGERNAME>'' @ sanitize (Some (strOr (customerName tx) ''Cash'')) @ ''</LEDGERNAME>'')
       @ xmlLine 14 ''<ISDEEMEDPOSITIVE>Yes</ISDEEMEDPOSITIVE>''
       @ xmlLine 14 (''<AMOUNT>-'' @ toFixed2 (totalAmount tx) @ ''</AMOUNT>'')
       @ xmlLine 12 ''</ALLLEDGERENTRIES.LIST>''
       @ xmlLine 0 []
       @ xmlLine 12 ''<!-- Cr Sales with Inventory -->''
       @ xmlLine 12 ''<ALLLEDGERENTRIES.LIST>''
       @ xmlLine 14 (''<LEDGERNAME>'' @ getLedgerName ov (''Sales @ '' @ numToString (rate tx) @ ''%'') @ ''</LEDGERNAME>'')
       @ xmlLine 14 ''<ISDEEMEDPOSITIVE>No</ISDEEMEDPOSITIVE>''
       @ xmlLine 14 (''<AMOUNT>'' @ toFixed2 (taxableValue tx) @ ''</AMOUNT>'')
       @ xmlLine 14 ''<INVENTORYENTRIES.LIST>''
       @ xmlLine 16 (''<STOCKITEMNAME>'' @ sanitize (Some (strOr (productName tx) ''General Item'')) @ ''</STOCKITEMNAME>'')
       @ xmlLine 16 ''<ISDEEMEDPOSITIVE>No</ISDEEMEDPOSITIVE>''
       @ xmlLine 16 (''<RATE>'' @ toFixed2 (numDiv (taxableValue tx) (qty tx)) @ ''</RATE>'')
       @ xmlLine 16 (''<AMOUNT>'' @ toFixed2 (taxableValue tx) @ ''</AMOUNT>'')
       @ xmlLine 16 (''<ACTUALQTY>'' @ numToString (qty tx) @ '' Nos</ACTUALQTY>'')
       @ xmlLine 16 (''<BILLEDQTY>'' @ numToString (qty tx) @ '' Nos</BILLEDQTY>'')
       @ xmlLine 14 ''</INVENTORYENTRIES.LIST>''
       @ xmlLine 12 ''</ALLLEDGERENTRIES.LIST>''
       @ (if gt0 (igst tx)
          then xmlLine 12 ''<ALLLEDGERENTRIES.LIST>''
               @ xmlLine 14 (''<LEDGERNAME>'' @ getLedgerName ov (''Output IGST @ '' @ numToString (rate tx) @ ''%'') @ ''</LEDGERNAME>'')
               @ xmlLine 14 ''<ISDEEMEDPOSITIVE>No</ISDEEMEDPOSITIVE>''
               @ xmlLine 14 (''<AMOUNT>'' @ toFixed2 (igst tx) @ ''</AMOUNT>'')
               @ xmlLine 12 ''</ALLLEDGERENTRIES.LIST>''
          else [])
       @ (if gt0 (cgst tx)
          then xmlLine 12 ''<ALLLEDGERENTRIES.LIST>''
               @ xmlLine 14 (''<LEDGERNAME>'' @ getLedgerName ov (''Output CGST @ '' @ numToString (numDiv (rate tx) (Num 2)) @ ''%'') @ ''</LEDGERNAME>'')
               @ xmlLine 14 ''<ISDEEMEDPOSITIVE>No</ISDEEMEDPOSITIVE>''
               @ xmlLine 14 (''<AMOUNT>'' @ toFixed2 (cgst tx) @ ''</AMOUNT>'')
               @ xmlLine 12 ''</ALLLEDGERENTRIES.LIST>''
               @ xmlLine 12 ''<ALLLEDGERENTRIES.LIST>''
               @ xmlLine 14 (''<LEDGERNAME>'' @ getLedgerName ov (''Output SGST @ '' @ numToString (numDiv (rate tx) (Num 2)) @ ''%'') @ ''</LEDGERNAME>'')
               @ xmlLine 14 ''<ISDEEMEDPOSITIVE>No</ISDEEMEDPOSITIVE>''
               @ xmlLine 14 (''<AMOUNT>'' @ toFixed2 (sgst tx) @ ''</AMOUNT>'')
               @ xmlLine 12 ''</ALLLEDGERENTRIES.LIST>''
          else [])
       @ xmlLine 10 ''</VOUCHER>''
       @ xmlLine 8 ''</TALLYMESSAGE>''\<close>
  by (simp add: voucherXml_def voucherOpen_def voucherHead_def partyEntry_def salesEntry_def
      igstBlock_def cgstSgstBlock_def taxEntry_def voucherClose_def invoiceNo'_def partyName_def
      stateName_def productName'_def salesLedger_def igstLedger_def cgstLedger_def sgstLedger_def
      del: sanitize.simps toFixed2.simps numToString.simps numDiv.simps)

lemma unescape_getLedgerName:
  "unescape (getLedgerName ov n) =
     (case ov n of None \<Rightarrow> n
      | Some customName \<Rightarrow> if customName \<noteq> [] \<and> trim customName \<noteq> [] then customName else n)"
  by (simp add: getLedgerName_def unescape_sanitize del: sanitize.simps)

lemma quoted_holes:
  \<open>formatDateForTally (\<lambda>d. None) (date quotedTransaction) = ''20240401''\<close>
  \<open>sanitize (invoiceNo quotedTransaction) = ''A&amp;B&lt;1&gt;''\<close>
  \<open>sanitize (Some (strOr (customerName quotedTransaction) ''Cash''))
     = ''O&apos;Neil &quot;Oz&quot; &amp; Co''\<close>
  \<open>sanitize (Some (strOr (state quotedTransaction) ''Maharashtra'')) = ''&lt;Goa&gt;''\<close>
  \<open>sanitize (Some (strOr (productName quotedTransaction) ''General Item'')) = ''5&quot; pipe''\<close>
  \<open>numToString (rate quotedTransaction) = ''18''\<close>
  \<open>getLedgerName quotedOverrides ''Sales @ 18%'' = ''Sales &lt;18&gt; &amp; more''\<close>
  \<open>getLedgerName quotedOverrides ''Output IGST @ 18%'' = ''Output IGST @ 18%''\<close>
  \<open>toFixed2 (totalAmount quotedTransaction) = ''1180.00''\<close>
  \<open>toFixed2 (taxableValue quotedTransaction) = ''1000.00''\<close>
  \<open>toFixed2 (igst quotedTransaction) = ''180.00''\<close>
  \<open>toFixed2 (numDiv (taxableValue quotedTransaction) (qty quotedTransaction)) = ''500.00''\<close>
  \<open>numToString (qty quotedTransaction) = ''2''\<close>
  \<open>gt0 (igst quotedTransaction)\<close> \<open>\<not> gt0 (cgst quotedTransaction)\<close>
  by (simp_all add: quotedTransaction_def quotedOverrides_def formatDateForTally_def escapeChar_def
      getLedgerName_def rate_def qty_def numOr_def trim_def isSpace_def show_simps)

lemma quoted_document:
  \<open>generateTallyXml (\<lambda>d. None) [quotedTransaction] quotedOverrides =
       ''<?xml version="1.0"?>''
       @ xmlLine 0 ''<ENVELOPE>''
       @ xmlLine 2 ''<HEADER>''
       @ xmlLine 4 ''<TALLYREQUEST>Import Data</TALLYREQUEST>''
       @ xmlLine 2 ''</HEADER>''
       @ xmlLine 2 ''<BODY>''
       @ xmlLine 4 ''<IMPORTDATA>''
       @ xmlLine 6 ''<REQUESTDESC>''
       @ xmlLine 8 ''<REPORTNAME>Vouchers</REPORTNAME>''
       @ xmlLine 8 ''<STATICVARIABLES>''
       @ xmlLine 10 ''<SVCURRENTCOMPANY>Ecommerce Sales</SVCURRENTCOMPANY>''
       @ xmlLine 8 ''</STATICVARIABLES>''
       @ xmlLine 6 ''</REQUESTDESC>''
       @ xmlLine 6 ''<REQUESTDATA>''
       @ xmlLine 8 ''<TALLYMESSAGE xmlns:UDF="TallyUDF">''
       @ xmlLine 10 ''<VOUCHER VCHTYPE="Sales" ACTION="Create" OBJVIEW="Accounting Voucher View">''
       @ xmlLine 12 ''<DATE>20240401</DATE>''
       @ xmlLine 12 ''<VOUCHERTYPENAME>Sales</VOUCHERTYPENAME>''
       @ xmlLine 12 ''<REFERENCE>A&amp;B&lt;1&gt;</REFERENCE>''
       @ xmlLine 12 ''<PARTYLEDGERNAME>O&apos;Neil &quot;Oz&quot; &amp; Co</PARTYLEDGERNAME>''
       @ xmlLine 12 ''<STATENAME>&lt;Goa&gt;</STATENAME>''
       @ xmlLine 12 ''<FBTPAYMENTTYPE>Default</FBTPAYMENTTYPE>''
       @ xmlLine 12 ''<PERSISTEDVIEW>Accounting Voucher View</PERSISTEDVIEW>''
       @ xmlLine 12 []
       @ xmlLine 12 ''<!-- Dr Party -->''
       @ xmlLine 12 ''<ALLLEDGERENTRIES.LIST>''
       @ xmlLine 14 ''<LEDGERNAME>O&apos;Neil &quot;Oz&quot; &amp; Co</LEDGERNAME>''
       @ xmlLine 14 ''<ISDEEMEDPOSITIVE>Yes</ISDEEMEDPOSITIVE>''
       @ xmlLine 14 ''<AMOUNT>-1180.00</AMOUNT>''
       @ xmlLine 12 ''</ALLLEDGERENTRIES.LIST>''
       @ xmlLine 0 []
       @ xmlLine 12 ''<!-- Cr Sales with Inventory -->''
       @ xmlLine 12 ''<ALLLEDGERENTRIES.LIST>''
       @ xmlLine 14 ''<LEDGERNAME>Sales &lt;18&gt; &amp; more</LEDGERNAME>''
       @ xmlLine 14 ''<ISDEEMEDPOSITIVE>No</ISDEEMEDPOSITIVE>''
       @ xmlLine 14 ''<AMOUNT>1000.00</AMOUNT>''
       @ xmlLine 14 ''<INVENTORYENTRIES.LIST>''
       @ xmlLine 16 ''<STOCKITEMNAME>5&quot; pipe</STOCKITEMNAME>''
       @ xmlLine 16 ''<ISDEEMEDPOSITIVE>No</ISDEEMEDPOSITIVE>''
       @ xmlLine 16 ''<RATE>500.00</RATE>''
       @ xmlLine 16 ''<AMOUNT>1000.00</AMOUNT>''
       @ xmlLine 16 ''<ACTUALQTY>2 Nos</ACTUALQTY>''
       @ xmlLine 16 ''<BILLEDQTY>2 Nos</BILLEDQTY>''
       @ xmlLine 14 ''</INVENTORYENTRIES.LIST>''
       @ xmlLine 12 ''</ALLLEDGERENTRIES.LIST>''
       @ xmlLine 12 ''<ALLLEDGERENTRIES.LIST>''
       @ xmlLine 14 (''<LEDGERNAME>'' @ ''Output IGST @ 18%'' @ ''</LEDGERNAME>'')
       @ xmlLine 14 ''<ISDEEMEDPOSITIVE>No</ISDEEMEDPOSITIVE>''
       @ xmlLine 14 ''<AMOUNT>180.00</AMOUNT>''
       @ xmlLine 12 ''</ALLLEDGERENTRIES.LIST>''
       @ xmlLine 10 ''</VOUCHER>''
       @ xmlLine 8 ''</TALLYMESSAGE>''
       @ xmlLine 6 ''</REQUESTDATA>''
       @ xmlLine 4 ''</IMPORTDATA>''
       @ xmlLine 2 ''</BODY>''
       @ xmlLine 0 ''</ENVELOPE>''\<close>
  by (simp add: generateTallyXml_concat voucherXml_template quoted_holes xmlHeader_def
      xmlFooter_def
      del: sanitize.simps toFixed2.simps numToString.simps numDiv.simps)

text \<open>
  Claim C9. The exported document is the header, the vouchers and the footer, and a
  voucher is the template below, in which the invoice number, the party name, the state
  name, the product name and the resolved ledger names (default or overridden) stand only
  as results of \<open>sanitize\<close>. \<open>sanitize\<close> replaces each of \<open>< > & ' "\<close> by its entity: its
  result holds none of \<open>< > ' "\<close>, every \<open>&\<close> in it starts an entity, and reading the
  entities back gives the text again. So in the whole document every \<open>&\<close> starts one of
  the five entities, no \<open>'\<close> occurs, and the numbers of \<open><\<close>, \<open>>\<close> and \<open>"\<close> are those of the
  markup alone, whatever the fields and the overrides hold. The document of a transaction
  whose fields hold all five characters shows the entities in place.
\<close>

theorem exported_text_escaped:
  \<open>escapeChar (CHR ''<'') = ''&lt;'' \<and> escapeChar (CHR ''>'') = ''&gt;''
   \<and> escapeChar (CHR ''&'') = ''&amp;'' \<and> escapeChar (CHR 0x27) = ''&apos;''
   \<and> escapeChar (CHR 0x22) = ''&quot;''
   \<and> generateTallyXml dp txs ov = xmlHeader @ concat (map (voucherXml dp ov) txs) @ xmlFooter
   \<and> voucherXml dp ov tx =
       xmlLine 8 ''<TALLYMESSAGE xmlns:UDF="TallyUDF">''
       @ xmlLine 10 ''<VOUCHER VCHTYPE="Sales" ACTION="Create" OBJVIEW="Accounting Voucher View">''
       @ xmlLine 12 (''<DATE>'' @ formatDateForTally dp (date tx) @ ''</DATE>'')
       @ xmlLine 12 ''<VOUCHERTYPENAME>Sales</VOUCHERTYPENAME>''
       @ xmlLine 12 (''<REFERENCE>'' @ sanitize (invoiceNo tx) @ ''</REFERENCE>'')
       @ xmlLine 12 (''<PARTYLEDGERNAME>'' @ sanitize (Some (strOr (customerName tx) ''Cash'')) @ ''</PARTYLEDGERNAME>'')
       @ xmlLine 12 (''<STATENAME>'' @ sanitize (Some (strOr (state tx) ''Maharashtra'')) @ ''</STATENAME>'')
       @ xmlLine 12 ''<FBTPAYMENTTYPE>Default</FBTPAYMENTTYPE>''
       @ xmlLine 12 ''<PERSISTEDVIEW>Accounting Voucher View</PERSISTEDVIEW>''
       @ xmlLine 12 []
       @ xmlLine 12 ''<!-- Dr Party -->''
       @ xmlLine 12 ''<ALLLEDGERENTRIES.LIST>''
       @ xmlLine 14 (''<LEDGERNAME>'' @ sanitize (Some (strOr (customerName tx) ''Cash'')) @ ''</LEDGERNAME>'')
       @ xmlLine 14 ''<ISDEEMEDPOSITIVE>Yes</ISDEEMEDPOSITIVE>''
       @ xmlLine 14 (''<AMOUNT>-'' @ toFixed2 (totalAmount tx) @ ''</AMOUNT>'')
       @ xmlLine 12 ''</ALLLEDGERENTRIES.LIST>''
       @ xmlLine 0 []
       @ xmlLine 12 ''<!-- Cr Sales with Inventory -->''
       @ xmlLine 12 ''<ALLLEDGERENTRIES.LIST>''
       @ xmlLine 14 (''<LEDGERNAME>'' @ getLedgerName ov (''Sales @ '' @ numToString (rate tx) @ ''%'') @ ''</LEDGERNAME>'')
       @ xmlLine 14 ''<ISDEEMEDPOSITIVE>No</ISDEEMEDPOSITIVE>''
       @ xmlLine 14 (''<AMOUNT>'' @ toFixed2 (taxableValue tx) @ ''</AMOUNT>'')
       @ xmlLine 14 ''<INVENTORYENTRIES.LIST>''
       @ xmlLine 16 (''<STOCKITEMNAME>'' @ sanitize (Some (strOr (productName tx) ''General Item'')) @ ''</STOCKITEMNAME>'')
       @ xmlLine 16 ''<ISDEEMEDPOSITIVE>No</ISDEEMEDPOSITIVE>''
       @ xmlLine 16 (''<RATE>'' @ toFixed2 (numDiv (taxableValue tx) (qty tx)) @ ''</RATE>'')
       @ xmlLine 16 (''<AMOUNT>'' @ toFixed2 (taxableValue tx) @ ''</AMOUNT>'')
       @ xmlLine 16 (''<ACTUALQTY>'' @ numToString (qty tx) @ '' Nos</ACTUALQTY>'')
       @ xmlLine 16 (''<BILLEDQTY>'' @ numToString (qty tx) @ '' Nos</BILLEDQTY>'')
       @ xmlLine 14 ''</INVENTORYENTRIES.LIST>''
       @ xmlLine 12 ''</ALLLEDGERENTRIES.LIST>''
       @ (if gt0 (igst tx)
          then xmlLine 12 ''<ALLLEDGERENTRIES.LIST>''
               @ xmlLine 14 (''<LEDGERNAME>'' @ getLedgerName ov (''Output IGST @ '' @ numToString (rate tx) @ ''%'') @ ''</LEDGERNAME>'')
               @ xmlLine 14 ''<ISDEEMEDPOSITIVE>No</ISDEEMEDPOSITIVE>''
               @ xmlLine 14 (''<AMOUNT>'' @ toFixed2 (igst tx) @ ''</AMOUNT>'')
               @ xmlLine 12 ''</ALLLEDGERENTRIES.LIST>''
          else [])
       @ (if gt0 (cgst tx)
          then xmlLine 12 ''<ALLLEDGERENTRIES.LIST>''
               @ xmlLine 14 (''<LEDGERNAME>'' @ getLedgerName ov (''Output CGST @ '' @ numToString (numDiv (rate tx) (Num 2)) @ ''%'') @ ''</LEDGERNAME>'')
               @ xmlLine 14 ''<ISDEEMEDPOSITIVE>No</ISDEEMEDPOSITIVE>''
               @ xmlLine 14 (''<AMOUNT>'' @ toFixed2 (cgst tx) @ ''</AMOUNT>'')
               @ xmlLine 12 ''</ALLLEDGERENTRIES.LIST>''
               @ xmlLine 12 ''<ALLLEDGERENTRIES.LIST>''
               @ xmlLine 14 (''<LEDGERNAME>'' @ getLedgerName ov (''Output SGST @ '' @ numToString (numDiv (rate tx) (Num 2)) @ ''%'') @ ''</LEDGERNAME>'')
               @ xmlLine 14 ''<ISDEEMEDPOSITIVE>No</ISDEEMEDPOSITIVE>''
               @ xmlLine 14 (''<AMOUNT>'' @ toFixed2 (sgst tx) @ ''</AMOUNT>'')
               @ xmlLine 12 ''</ALLLEDGERENTRIES.LIST>''
          else [])
       @ xmlLine 10 ''</VOUCHER>''
       @ xmlLine 8 ''</TALLYMESSAGE>''
   \<and> xmlEscaped (sanitize v) \<and> unescape (sanitize (Some s)) = s
   \<and> xmlEscaped (getLedgerName ov n)
   \<and> unescape (getLedgerName ov n) =
       (case ov n of None \<Rightarrow> n
        | Some customName \<Rightarrow>
            if customName \<noteq> [] \<and> trim customName \<noteq> [] then customName else n)
   \<and> ampsEscaped (generateTallyXml dp txs ov)
   \<and> count_list (generateTallyXml dp txs ov) (CHR 0x27) = 0
   \<and> count_list (generateTallyXml dp txs ov) (CHR ''<'')
       = 21 + (\<Sum>t\<leftarrow>txs. 50 + 8 * taxEntryCount t)
   \<and> count_list (generateTallyXml dp txs ov) (CHR ''>'')
       = 21 + (\<Sum>t\<leftarrow>txs. 50 + 8 * taxEntryCount t)
   \<and> count_list (generateTallyXml dp txs ov) (CHR 0x22) = 2 + 8 * length txs
   \<and> generateTallyXml (\<lambda>d. None) [quotedTransaction] quotedOverrides =
       ''<?xml version="1.0"?>''
       @ xmlLine 0 ''<ENVELOPE>''
       @ xmlLine 2 ''<HEADER>''
       @ xmlLine 4 ''<TALLYREQUEST>Import Data</TALLYREQUEST>''
       @ xmlLine 2 ''</HEADER>''
       @ xmlLine 2 ''<BODY>''
       @ xmlLine 4 ''<IMPORTDATA>''
       @ xmlLine 6 ''<REQUESTDESC>''
       @ xmlLine 8 ''<REPORTNAME>Vouchers</REPORTNAME>''
       @ xmlLine 8 ''<STATICVARIABLES>''
       @ xmlLine 10 ''<SVCURRENTCOMPANY>Ecommerce Sales</SVCURRENTCOMPANY>''
       @ xmlLine 8 ''</STATICVARIABLES>''
       @ xmlLine 6 ''</REQUESTDESC>''
       @ xmlLine 6 ''<REQUESTDATA>''
       @ xmlLine 8 ''<TALLYMESSAGE xmlns:UDF="TallyUDF">''
       @ xmlLine 10 ''<VOUCHER VCHTYPE="Sales" ACTION="Create" OBJVIEW="Accounting Voucher View">''
       @ xmlLine 12 ''<DATE>20240401</DATE>''
       @ xmlLine 12 ''<VOUCHERTYPENAME>Sales</VOUCHERTYPENAME>''
       @ xmlLine 12 ''<REFERENCE>A&amp;B&lt;1&gt;</REFERENCE>''
       @ xmlLine 12 ''<PARTYLEDGERNAME>O&apos;Neil &quot;Oz&quot; &amp; Co</PARTYLEDGERNAME>''
       @ xmlLine 12 ''<STATENAME>&lt;Goa&gt;</STATENAME>''
       @ xmlLine 12 ''<FBTPAYMENTTYPE>Default</FBTPAYMENTTYPE>''
       @ xmlLine 12 ''<PERSISTEDVIEW>Accounting Voucher View</PERSISTEDVIEW>''
       @ xmlLine 12 []
       @ xmlLine 12 ''<!-- Dr Party -->''
       @ xmlLine 12 ''<ALLLEDGERENTRIES.LIST>''
       @ xmlLine 14 ''<LEDGERNAME>O&apos;Neil &quot;Oz&quot; &amp; Co</LEDGERNAME>''
       @ xmlLine 14 ''<ISDEEMEDPOSITIVE>Yes</ISDEEMEDPOSITIVE>''
       @ xmlLine 14 ''<AMOUNT>-1180.00</AMOUNT>''
       @ xmlLine 12 ''</ALLLEDGERENTRIES.LIST>''
       @ xmlLine 0 []
       @ xmlLine 12 ''<!-- Cr Sales with Inventory -->''
       @ xmlLine 12 ''<ALLLEDGERENTRIES.LIST>''
       @ xmlLine 14 ''<LEDGERNAME>Sales &lt;18&gt; &amp; more</LEDGERNAME>''
       @ xmlLine 14 ''<ISDEEMEDPOSITIVE>No</ISDEEMEDPOSITIVE>''
       @ xmlLine 14 ''<AMOUNT>1000.00</AMOUNT>''
       @ xmlLine 14 ''<INVENTORYENTRIES.LIST>''
       @ xmlLine 16 ''<STOCKITEMNAME>5&quot; pipe</STOCKITEMNAME>''
       @ xmlLine 16 ''<ISDEEMEDPOSITIVE>No</ISDEEMEDPOSITIVE>''
       @ xmlLine 16 ''<RATE>500.00</RATE>''
       @ xmlLine 16 ''<AMOUNT>1000.00</AMOUNT>''
       @ xmlLine 16 ''<ACTUALQTY>2 Nos</ACTUALQTY>''
       @ xmlLine 16 ''<BILLEDQTY>2 Nos</BILLEDQTY>''
       @ xmlLine 14 ''</INVENTORYENTRIES.LIST>''
       @ xmlLine 12 ''</ALLLEDGERENTRIES.LIST>''
       @ xmlLine 12 ''<ALLLEDGERENTRIES.LIST>''
       @ xmlLine 14 (''<LEDGERNAME>'' @ ''Output IGST @ 18%'' @ ''</LEDGERNAME>'')
       @ xmlLine 14 ''<ISDEEMEDPOSITIVE>No</ISDEEMEDPOSITIVE>''
       @ xmlLine 14 ''<AMOUNT>180.00</AMOUNT>''
       @ xmlLine 12 ''</ALLLEDGERENTRIES.LIST>''
       @ xmlLine 10 ''</VOUCHER>''
       @ xmlLine 8 ''</TALLYMESSAGE>''
       @ xmlLine 6 ''</REQUESTDATA>''
       @ xmlLine 4 ''</IMPORTDATA>''
       @ xmlLine 2 ''</BODY>''
       @ xmlLine 0 ''</ENVELOPE>''\<close>
proof (intro conjI)
  show "escapeChar (CHR ''<'') = ''&lt;''" "escapeChar (CHR ''>'') = ''&gt;''"
    "escapeChar (CHR ''&'') = ''&amp;''" "escapeChar (CHR 0x27) = ''&apos;''"
    "escapeChar (CHR 0x22) = ''&quot;''"
    by (simp_all add: escapeChar_def)
qed (rule generateTallyXml_concat voucherXml_template xmlEscaped_sanitize unescape_sanitize
      getLedgerName_escaped unescape_getLedgerName document_amps document_counts
      quoted_document)+

section \<open>The substitutes for a missing customer and state\<close>

lemma partyName_cases:
  "partyName tx = (case customerName tx of None \<Rightarrow> ''Cash''
                   | Some s \<Rightarrow> if s = [] then ''Cash'' else concat (map escapeChar s))"
proof (cases "customerName tx")
  case None
  have "sanitize (Some ''Cash'') = ''Cash''" by code_simp
  then show ?thesis using None by (simp add: partyName_def del: sanitize.simps)
next
  case (Some s)
  have "sanitize (Some ''Cash'') = ''Cash''" by code_simp
  then show ?thesis using Some by (simp add: partyName_def)
qed

lemma stateName_cases:
  "stateName tx = (case state tx of None \<Rightarrow> ''Maharashtra''
                   | Some s \<Rightarrow> if s = [] then ''Maharashtra'' else concat (map escapeChar s))"
proof (cases "state tx")
  case None
  have "sanitize (Some ''Maharashtra'') = ''Maharashtra''" by code_simp
  then show ?thesis using None by (simp add: stateName_def del: sanitize.simps)
next
  case (Some s)
  have "sanitize (Some ''Maharashtra'') = ''Maharashtra''" by code_simp
  then show ?thesis using Some by (simp add: stateName_def)
qed

lemma voucherXml_party_state:
  \<open>voucherXml dp ov tx =
       xmlLine 8 ''<TALLYMESSAGE xmlns:UDF="TallyUDF">''
       @ xmlLine 10 ''<VOUCHER VCHTYPE="Sales" ACTION="Create" OBJVIEW="Accounting Voucher View">''
       @ xmlLine 12 (''<DATE>'' @ formatDateForTally dp (date tx) @ ''</DATE>'')
       @ xmlLine 12 ''<VOUCHERTYPENAME>Sales</VOUCHERTYPENAME>''
       @ xmlLine 12 (''<REFERENCE>'' @ invoiceNo' tx @ ''</REFERENCE>'')
       @ xmlLine 12 (''<PARTYLEDGERNAME>'' @ (case customerName tx of None \<Rightarrow> ''Cash''
                | Some c \<Rightarrow> if c = [] then ''Cash'' else concat (map escapeChar c)) @ ''</PARTYLEDGERNAME>'')
       @ xmlLine 12 (''<STATENAME>'' @ (case state tx of None \<Rightarrow> ''Maharashtra''
                | Some s \<Rightarrow> if s = [] then ''Maharashtra'' else concat (map escapeChar s)) @ ''</STATENAME>'')
       @ xmlLine 12 ''<FBTPAYMENTTYPE>Default</FBTPAYMENTTYPE>''
       @ xmlLine 12 ''<PERSISTEDVIEW>Accounting Voucher View</PERSISTEDVIEW>''
       @ xmlLine 12 []
       @ xmlLine 12 ''<!-- Dr Party -->''
       @ xmlLine 12 ''<ALLLEDGERENTRIES.LIST>''
       @ xmlLine 14 (''<LEDGERNAME>'' @ (case customerName tx of None \<Rightarrow> ''Cash''
                | Some c \<Rightarrow> if c = [] then ''Cash'' else concat (map escapeChar c)) @ ''</LEDGERNAME>'')
       @ xmlLine 14 ''<ISDEEMEDPOSITIVE>Yes</ISDEEMEDPOSITIVE>''
       @ xmlLine 14 (''<AMOUNT>-'' @ toFixed2 (totalAmount tx) @ ''</AMOUNT>'')
       @ xmlLine 12 ''</ALLLEDGERENTRIES.LIST>''
       @ salesEntry ov tx
       @ (if gt0 (igst tx) then igstBlock ov tx else [])
       @ (if gt0 (cgst tx) then cgstSgstBlock ov tx else [])
       @ voucherClose\<close>
  by (simp add: voucherXml_def voucherOpen_def voucherHead_def partyEntry_def partyName_cases
      stateName_cases del: toFixed2.simps)

lemma cash_holes:
  \<open>formatDateForTally (\<lambda>d. None) (date anonymousTransaction) = ''20240401''\<close>
  \<open>sanitize (invoiceNo anonymousTransaction) = ''INV001''\<close>
  \<open>sanitize (Some (strOr (customerName anonymousTransaction) ''Cash''))
     = ''Cash''\<close>
  \<open>sanitize (Some (strOr (state anonymousTransaction) ''Maharashtra''))
     = ''Maharashtra''\<close>
  \<open>sanitize (Some (strOr (productName anonymousTransaction) ''General Item''))
     = ''Widget''\<close>
  \<open>numToString (rate anonymousTransaction) = ''18''\<close>
  \<open>getLedgerName Map.empty ''Sales @ 18%'' = ''Sales @ 18%''\<close>
  \<open>getLedgerName Map.empty ''Output IGST @ 18%'' = ''Output IGST @ 18%''\<close>
  \<open>toFixed2 (totalAmount anonymousTransaction) = ''18000.00''\<close>
  \<open>toFixed2 (taxableValue anonymousTransaction) = ''1000.00''\<close>
  \<open>toFixed2 (igst anonymousTransaction) = ''180.00''\<close>
  \<open>toFixed2 (numDiv (taxableValue anonymousTransaction)
       (qty anonymousTransaction)) = ''500.00''\<close>
  \<open>numToString (qty anonymousTransaction) = ''2''\<close>
  \<open>gt0 (igst anonymousTransaction)\<close>
  \<open>\<not> gt0 (cgst anonymousTransaction)\<close>
  by (simp_all add: anonymousTransaction_def formatDateForTally_def escapeChar_def
      getLedgerName_def rate_def qty_def numOr_def show_simps)

lemma cash_document:
  \<open>generateTallyXml (\<lambda>d. None) [anonymousTransaction] Map.empty =
       ''<?xml version="1.0"?>''
       @ xmlLine 0 ''<ENVELOPE>''
       @ xmlLine 2 ''<HEADER>''
       @ xmlLine 4 ''<TALLYREQUEST>Import Data</TALLYREQUEST>''
       @ xmlLine 2 ''</HEADER>''
       @ xmlLine 2 ''<BODY>''
       @ xmlLine 4 ''<IMPORTDATA>''
       @ xmlLine 6 ''<REQUESTDESC>''
       @ xmlLine 8 ''<REPORTNAME>Vouchers</REPORTNAME>''
       @ xmlLine 8 ''<STATICVARIABLES>''
       @ xmlLine 10 ''<SVCURRENTCOMPANY>Ecommerce Sales</SVCURRENTCOMPANY>''
       @ xmlLine 8 ''</STATICVARIABLES>''
       @ xmlLine 6 ''</REQUESTDESC>''
       @ xmlLine 6 ''<REQUESTDATA>''
       @ xmlLine 8 ''<TALLYMESSAGE xmlns:UDF="TallyUDF">''
       @ xmlLine 10 ''<VOUCHER VCHTYPE="Sales" ACTION="Create" OBJVIEW="Accounting Voucher View">''
       @ xmlLine 12 ''<DATE>20240401</DATE>''
       @ xmlLine 12 ''<VOUCHERTYPENAME>Sales</VOUCHERTYPENAME>''
       @ xmlLine 12 ''<REFERENCE>INV001</REFERENCE>''
       @ xmlLine 12 ''<PARTYLEDGERNAME>Cash</PARTYLEDGERNAME>''
       @ xmlLine 12 ''<STATENAME>Maharashtra</STATENAME>''
       @ xmlLine 12 ''<FBTPAYMENTTYPE>Default</FBTPAYMENTTYPE>''
       @ xmlLine 12 ''<PERSISTEDVIEW>Accounting Voucher View</PERSISTEDVIEW>''
       @ xmlLine 12 []
       @ xmlLine 12 ''<!-- Dr Party -->''
       @ xmlLine 12 ''<ALLLEDGERENTRIES.LIST>''
       @ xmlLine 14 ''<LEDGERNAME>Cash</LEDGERNAME>''
       @ xmlLine 14 ''<ISDEEMEDPOSITIVE>Yes</ISDEEMEDPOSITIVE>''
       @ xmlLine 14 ''<AMOUNT>-18000.00</AMOUNT>''
       @ xmlLine 12 ''</ALLLEDGERENTRIES.LIST>''
       @ xmlLine 0 []
       @ xmlLine 12 ''<!-- Cr Sales with Inventory -->''
       @ xmlLine 12 ''<ALLLEDGERENTRIES.LIST>''
       @ xmlLine 14 (''<LEDGERNAME>'' @ ''Sales @ 18%'' @ ''</LEDGERNAME>'')
       @ xmlLine 14 ''<ISDEEMEDPOSITIVE>No</ISDEEMEDPOSITIVE>''
       @ xmlLine 14 ''<AMOUNT>1000.00</AMOUNT>''
       @ xmlLine 14 ''<INVENTORYENTRIES.LIST>''
       @ xmlLine 16 ''<STOCKITEMNAME>Widget</STOCKITEMNAME>''
       @ xmlLine 16 ''<ISDEEMEDPOSITIVE>No</ISDEEMEDPOSITIVE>''
       @ xmlLine 16 ''<RATE>500.00</RATE>''
       @ xmlLine 16 ''<AMOUNT>1000.00</AMOUNT>''
       @ xmlLine 16 ''<ACTUALQTY>2 Nos</ACTUALQTY>''
       @ xmlLine 16 ''<BILLEDQTY>2 Nos</BILLEDQTY>''
       @ xmlLine 14 ''</INVENTORYENTRIES.LIST>''
       @ xmlLine 12 ''</ALLLEDGERENTRIES.LIST>''
       @ xmlLine 12 ''<ALLLEDGERENTRIES.LIST>''
       @ xmlLine 14 (''<LEDGERNAME>'' @ ''Output IGST @ 18%'' @ ''</LEDGERNAME>'')
       @ xmlLine 14 ''<ISDEEMEDPOSITIVE>No</ISDEEMEDPOSITIVE>''
       @ xmlLine 14 ''<AMOUNT>180.00</AMOUNT>''
       @ xmlLine 12 ''</ALLLEDGERENTRIES.LIST>''
       @ xmlLine 10 ''</VOUCHER>''
       @ xmlLine 8 ''</TALLYMESSAGE>''
       @ xmlLine 6 ''</REQUESTDATA>''
       @ xmlLine 4 ''</IMPORTDATA>''
       @ xmlLine 2 ''</BODY>''
       @ xmlLine 0 ''</ENVELOPE>''\<close>
  by (simp add: generateTallyXml_concat voucherXml_template cash_holes xmlHeader_def
      xmlFooter_def
      del: sanitize.simps toFixed2.simps numToString.simps numDiv.simps)

text \<open>
  Claim C10. In every exported voucher the \<open>PARTYLEDGERNAME\<close> element and the
  \<open>LEDGERNAME\<close> of the debit entry hold \<open>Cash\<close> when \<open>customerName\<close> is empty (or
  undefined) and the escaped \<open>customerName\<close> otherwise; the \<open>STATENAME\<close> element holds
  \<open>Maharashtra\<close> when \<open>state\<close> is empty (or undefined) and the escaped \<open>state\<close> otherwise.
  The document exported for a transaction with neither shows both substitutes.
\<close>

theorem party_and_state_defaults:
  \<open>generateTallyXml dp txs ov = xmlHeader @ concat (map (voucherXml dp ov) txs) @ xmlFooter
   \<and> voucherXml dp ov tx =
       xmlLine 8 ''<TALLYMESSAGE xmlns:UDF="TallyUDF">''
       @ xmlLine 10 ''<VOUCHER VCHTYPE="Sales" ACTION="Create" OBJVIEW="Accounting Voucher View">''
       @ xmlLine 12 (''<DATE>'' @ formatDateForTally dp (date tx) @ ''</DATE>'')
       @ xmlLine 12 ''<VOUCHERTYPENAME>Sales</VOUCHERTYPENAME>''
       @ xmlLine 12 (''<REFERENCE>'' @ invoiceNo' tx @ ''</REFERENCE>'')
       @ xmlLine 12 (''<PARTYLEDGERNAME>'' @ (case customerName tx of None \<Rightarrow> ''Cash''
                | Some c \<Rightarrow> if c = [] then ''Cash'' else concat (map escapeChar c)) @ ''</PARTYLEDGERNAME>'')
       @ xmlLine 12 (''<STATENAME>'' @ (case state tx of None \<Rightarrow> ''Maharashtra''
                | Some s \<Rightarrow> if s = [] then ''Maharashtra'' else concat (map escapeChar s)) @ ''</STATENAME>'')
       @ xmlLine 12 ''<FBTPAYMENTTYPE>Default</FBTPAYMENTTYPE>''
       @ xmlLine 12 ''<PERSISTEDVIEW>Accounting Voucher View</PERSISTEDVIEW>''
       @ xmlLine 12 []
       @ xmlLine 12 ''<!-- Dr Party -->''
       @ xmlLine 12 ''<ALLLEDGERENTRIES.LIST>''
       @ xmlLine 14 (''<LEDGERNAME>'' @ (case customerName tx of None \<Rightarrow> ''Cash''
                | Some c \<Rightarrow> if c = [] then ''Cash'' else concat (map escapeChar c)) @ ''</LEDGERNAME>'')
       @ xmlLine 14 ''<ISDEEMEDPOSITIVE>Yes</ISDEEMEDPOSITIVE>''
       @ xmlLine 14 (''<AMOUNT>-'' @ toFixed2 (totalAmount tx) @ ''</AMOUNT>'')
       @ xmlLine 12 ''</ALLLEDGERENTRIES.LIST>''
       @ salesEntry ov tx
       @ (if gt0 (igst tx) then igstBlock ov tx else [])
       @ (if gt0 (cgst tx) then cgstSgstBlock ov tx else [])
       @ voucherClose
   \<and> customerName anonymousTransaction = Some []
   \<and> state anonymousTransaction = Some []
   \<and> generateTallyXml (\<lambda>d. None) [anonymousTransaction] Map.empty =
       ''<?xml version="1.0"?>''
       @ xmlLine 0 ''<ENVELOPE>''
       @ xmlLine 2 ''<HEADER>''
       @ xmlLine 4 ''<TALLYREQUEST>Import Data</TALLYREQUEST>''
       @ xmlLine 2 ''</HEADER>''
       @ xmlLine 2 ''<BODY>''
       @ xmlLine 4 ''<IMPORTDATA>''
       @ xmlLine 6 ''<REQUESTDESC>''
       @ xmlLine 8 ''<REPORTNAME>Vouchers</REPORTNAME>''
       @ xmlLine 8 ''<STATICVARIABLES>''
       @ xmlLine 10 ''<SVCURRENTCOMPANY>Ecommerce Sales</SVCURRENTCOMPANY>''
       @ xmlLine 8 ''</STATICVARIABLES>''
       @ xmlLine 6 ''</REQUESTDESC>''
       @ xmlLine 6 ''<REQUESTDATA>''
       @ xmlLine 8 ''<TALLYMESSAGE xmlns:UDF="TallyUDF">''
       @ xmlLine 10 ''<VOUCHER VCHTYPE="Sales" ACTION="Create" OBJVIEW="Accounting Voucher View">''
       @ xmlLine 12 ''<DATE>20240401</DATE>''
       @ xmlLine 12 ''<VOUCHERTYPENAME>Sales</VOUCHERTYPENAME>''
       @ xmlLine 12 ''<REFERENCE>INV001</REFERENCE>''
       @ xmlLine 12 ''<PARTYLEDGERNAME>Cash</PARTYLEDGERNAME>''
       @ xmlLine 12 ''<STATENAME>Maharashtra</STATENAME>''
       @ xmlLine 12 ''<FBTPAYMENTTYPE>Default</FBTPAYMENTTYPE>''
       @ xmlLine 12 ''<PERSISTEDVIEW>Accounting Voucher View</PERSISTEDVIEW>''
       @ xmlLine 12 []
       @ xmlLine 12 ''<!-- Dr Party -->''
       @ xmlLine 12 ''<ALLLEDGERENTRIES.LIST>''
       @ xmlLine 14 ''<LEDGERNAME>Cash</LEDGERNAME>''
       @ xmlLine 14 ''<ISDEEMEDPOSITIVE>Yes</ISDEEMEDPOSITIVE>''
       @ xmlLine 14 ''<AMOUNT>-18000.00</AMOUNT>''
       @ xmlLine 12 ''</ALLLEDGERENTRIES.LIST>''
       @ xmlLine 0 []
       @ xmlLine 12 ''<!-- Cr Sales with Inventory -->''
       @ xmlLine 12 ''<ALLLEDGERENTRIES.LIST>''
       @ xmlLine 14 (''<LEDGERNAME>'' @ ''Sales @ 18%'' @ ''</LEDGERNAME>'')
       @ xmlLine 14 ''<ISDEEMEDPOSITIVE>No</ISDEEMEDPOSITIVE>''
       @ xmlLine 14 ''<AMOUNT>1000.00</AMOUNT>''
       @ xmlLine 14 ''<INVENTORYENTRIES.LIST>''
       @ xmlLine 16 ''<STOCKITEMNAME>Widget</STOCKITEMNAME>''
       @ xmlLine 16 ''<ISDEEMEDPOSITIVE>No</ISDEEMEDPOSITIVE>''
       @ xmlLine 16 ''<RATE>500.00</RATE>''
       @ xmlLine 16 ''<AMOUNT>1000.00</AMOUNT>''
       @ xmlLine 16 ''<ACTUALQTY>2 Nos</ACTUALQTY>''
       @ xmlLine 16 ''<BILLEDQTY>2 Nos</BILLEDQTY>''
       @ xmlLine 14 ''</INVENTORYENTRIES.LIST>''
       @ xmlLine 12 ''</ALLLEDGERENTRIES.LIST>''
       @ xmlLine 12 ''<ALLLEDGERENTRIES.LIST>''
       @ xmlLine 14 (''<LEDGERNAME>'' @ ''Output IGST @ 18%'' @ ''</LEDGERNAME>'')
       @ xmlLine 14 ''<ISDEEMEDPOSITIVE>No</ISDEEMEDPOSITIVE>''
       @ xmlLine 14 ''<AMOUNT>180.00</AMOUNT>''
       @ xmlLine 12 ''</ALLLEDGERENTRIES.LIST>''
       @ xmlLine 10 ''</VOUCHER>''
       @ xmlLine 8 ''</TALLYMESSAGE>''
       @ xmlLine 6 ''</REQUESTDATA>''
       @ xmlLine 4 ''</IMPORTDATA>''
       @ xmlLine 2 ''</BODY>''
       @ xmlLine 0 ''</ENVELOPE>''\<close>
proof (intro conjI)
  show "customerName anonymousTransaction = Some []"
    "state anonymousTransaction = Some []"
    by (simp_all add: anonymousTransaction_def)
qed (rule generateTallyXml_concat voucherXml_party_state cash_document)+

section \<open>Files without a usable line\<close>

lemma parseCSV_unusable:
  assumes "list_all (\<lambda>line. length (splitComma line) < 2) (splitLines text)"
  shows "parseCSV text = []"
proof -
  have "\<forall>line \<in> set (splitLines text). \<not> 1 < length (splitComma line)"
    using assms by (auto simp add: list_all_iff)
  then show ?thesis
    by (simp add: parseCSV_def filter_empty_conv)
qed

lemma bad_text_lines:
  "list_all (\<lambda>line. length (splitComma line) < 2) (splitLines ''no separator here\<newline>\<newline>'')"
  by simp

lemma good_file:
  "fileDataOf (''good.csv'', ''a,b\<newline>1,2'')
     = [\<lparr>name = ''good.csv'', headers = [''a'', ''b''], rawData = [[''1'', ''2'']]\<rparr>]"
  by (simp add: fileDataOf_def parseCSV_def trim_def isSpace_def stripQuotes_def)

text \<open>
  Claim C4, as the specification states it, fails in its first part: for a text none of
  whose lines has a comma, \<open>parseCSV\<close> returns no line, and \<open>if (data.length > 0)\<close> then
  skips the file, so no \<open>FileData\<close> is made for it, not one with zero headers and zero
  rows.
\<close>

theorem empty_source_counterexample:
  "list_all (\<lambda>line. length (splitComma line) < 2) (splitLines ''no separator here\<newline>\<newline>'')
   \<and> fileDataOf (''bad.csv'', ''no separator here\<newline>\<newline>'')
       \<noteq> [\<lparr>name = ''bad.csv'', headers = [], rawData = []\<rparr>]
   \<and> uploadedFiles (handleFileUpload [(''bad.csv'', ''no separator here\<newline>\<newline>'')] initialState)
       = []"
proof -
  have p: "parseCSV ''no separator here\<newline>\<newline>'' = []"
    by (rule parseCSV_unusable [OF bad_text_lines])
  have f: "fileDataOf (''bad.csv'', ''no separator here\<newline>\<newline>'') = []"
    using p by (simp add: fileDataOf_def)
  have u: "uploadedFiles (handleFileUpload [(''bad.csv'', ''no separator here\<newline>\<newline>'')] initialState)
       = []"
    using f by (simp add: handleFileUpload_def initialState_def)
  show ?thesis using bad_text_lines f u by simp
qed

text \<open>
  Claim C4, amended. When every line of a file's text splits into fewer than two cells,
  \<open>parseCSV\<close> returns the empty list and \<open>handleFileUpload\<close> adds no \<open>FileData\<close> for the
  file: the uploaded files are what they are without it, whatever other files are uploaded
  with it, so the transactions built afterwards are those of the other files. Neither
  function has a failing branch.
\<close>

theorem unusable_file_is_skipped:
  assumes "list_all (\<lambda>line. length (splitComma line) < 2) (splitLines text)"
  shows "parseCSV text = []
       \<and> fileDataOf (fname, text) = []
       \<and> uploadedFiles (handleFileUpload [(fname, text)] st) = uploadedFiles st
       \<and> uploadedFiles (handleFileUpload (before @ (fname, text) # after) st)
           = uploadedFiles (handleFileUpload (before @ after) st)
       \<and> buildTransactions m (uploadedFiles (handleFileUpload [(fname, text)] st))
           = buildTransactions m (uploadedFiles st)"
proof -
  have p: "parseCSV text = []"
    by (rule parseCSV_unusable [OF assms])
  then have f: "fileDataOf (fname, text) = []"
    by (simp add: fileDataOf_def)
  then show ?thesis
    using p by (simp add: handleFileUpload_def)
qed

theorem unusable_file_is_skipped_witness:
  "list_all (\<lambda>line. length (splitComma line) < 2) (splitLines ''no separator here\<newline>\<newline>'')
   \<and> parseCSV ''no separator here\<newline>\<newline>'' = []
   \<and> uploadedFiles (handleFileUpload
        [(''good.csv'', ''a,b\<newline>1,2''), (''bad.csv'', ''no separator here\<newline>\<newline>'')] initialState)
      = [\<lparr>name = ''good.csv'', headers = [''a'', ''b''], rawData = [[''1'', ''2'']]\<rparr>]"
proof -
  note inst = unusable_file_is_skipped [OF bad_text_lines, of "''bad.csv''" initialState
        "[(''good.csv'', ''a,b\<newline>1,2'')]" "[]" blankMapping]
  have p: "parseCSV ''no separator here\<newline>\<newline>'' = []"
    by (rule inst [THEN conjunct1])
  have g: "uploadedFiles (handleFileUpload [(''good.csv'', ''a,b\<newline>1,2'')] initialState)
      = [\<lparr>name = ''good.csv'', headers = [''a'', ''b''], rawData = [[''1'', ''2'']]\<rparr>]"
    by (simp add: handleFileUpload_def good_file initialState_def)
  have u: "uploadedFiles (handleFileUpload
        [(''good.csv'', ''a,b\<newline>1,2''), (''bad.csv'', ''no separator here\<newline>\<newline>'')] initialState)
      = uploadedFiles (handleFileUpload [(''good.csv'', ''a,b\<newline>1,2'')] initialState)"
    using inst [THEN conjunct2, THEN conjunct2, THEN conjunct2, THEN conjunct1] by simp
  show ?thesis
    using bad_text_lines p u g by (simp only: simp_thms)
qed

section \<open>Ledger derivation\<close>

lemma setAdd_set: "set (setAdd x xs) = insert x (set xs)"
  by (auto simp add: setAdd_def)

lemma setAdd_distinct: "distinct xs \<Longrightarrow> distinct (setAdd x xs)"
  by (simp add: setAdd_def)

lemma collect_fold_set:
  "set (fold (\<lambda>t rates. if gt0 (gstRate t) then setAdd (gstRate t) rates else rates) txs acc)
     = set acc \<union> {r. gt0 r \<and> r \<in> gstRate ` set txs}"
  by (induction txs arbitrary: acc) (auto simp add: setAdd_set)

lemma collect_fold_distinct:
  "distinct acc \<Longrightarrow>
   distinct (fold (\<lambda>t rates. if gt0 (gstRate t) then setAdd (gstRate t) rates else rates) txs acc)"
  by (induction txs arbitrary: acc) (simp_all add: setAdd_distinct)

lemma collectRates_set: "set (collectRates txs) = {r. gt0 r \<and> r \<in> gstRate ` set txs}"
  by (simp add: collectRates_def collect_fold_set)

lemma collectRates_distinct: "distinct (collectRates txs)"
  by (simp add: collectRates_def collect_fold_distinct)

lemma numVal_inj_on_positive: "inj_on numVal {r. gt0 r}"
proof (rule inj_onI)
  fix a b assume "a \<in> {r. gt0 r}" "b \<in> {r. gt0 r}" "numVal a = numVal b"
  then show "a = b" by (cases a; cases b) simp_all
qed

lemma sortedRates_set: "set (sortedRates txs) = {r. gt0 r \<and> r \<in> gstRate ` set txs}"
  by (simp add: sortedRates_def collectRates_set)

lemma sortedRates_strict: "sorted_wrt (<) (map numVal (sortedRates txs))"
proof -
  have s: "sorted (map numVal (sortedRates txs))"
    by (simp add: sortedRates_def)
  have "inj_on numVal (set (sortedRates txs))"
    by (rule inj_on_subset [OF numVal_inj_on_positive]) (auto simp add: sortedRates_set)
  moreover have "distinct (sortedRates txs)"
    by (simp add: sortedRates_def collectRates_distinct)
  ultimately have "distinct (map numVal (sortedRates txs))"
    by (simp add: distinct_map)
  then show ?thesis
    using s by (simp add: strict_sorted_iff)
qed

lemma scenario_rates:
  "sortedRates [a\<lparr>igst := Num 180, cgst := Num 0, gstRate := Num 18\<rparr>,
                 b\<lparr>cgst := Num 90, sgst := Num 90, gstRate := Num 18\<rparr>] = [Num 18]"
  by (simp add: sortedRates_def collectRates_def setAdd_def)

text \<open>
  Claim C8. The suggested ledgers are a function of the transaction list alone: the rates
  are the distinct positive \<open>gstRate\<close> values in strictly ascending order; every rate gets
  its Sales ledger, its IGST ledger when some transaction of the batch has \<open>igst > 0\<close>, and
  its CGST and SGST ledgers at half the rate when some transaction of the batch has
  \<open>cgst > 0\<close> or \<open>sgst > 0\<close>. A batch of one transaction with \<open>igst = 180\<close>, \<open>cgst = 0\<close> and
  one with \<open>cgst = 90\<close>, \<open>sgst = 90\<close>, both at rate \<open>18\<close>, gives the four ledgers of rate
  \<open>18\<close>.
\<close>

theorem ledger_derivation:
  "suggestedLedgers txs =
     concat (map (ledgersForRate (\<exists>t \<in> set txs. gt0 (igst t))
                                (\<exists>t \<in> set txs. gt0 (cgst t) \<or> gt0 (sgst t)))
                 (sortedRates txs))
   \<and> set (sortedRates txs) = {r. gt0 r \<and> r \<in> gstRate ` set txs}
   \<and> sorted_wrt (<) (map numVal (sortedRates txs))
   \<and> map lname (ledgersForRate hasIgst hasCgstSgst r) =
       [''Sales @ '' @ numToString r @ ''%'']
       @ (if hasIgst then [''Output IGST @ '' @ numToString r @ ''%''] else [])
       @ (if hasCgstSgst
          then [''Output CGST @ '' @ numToString (numDiv r (Num 2)) @ ''%'',
                ''Output SGST @ '' @ numToString (numDiv r (Num 2)) @ ''%'']
          else [])
   \<and> suggestedLedgers [a\<lparr>igst := Num 180, cgst := Num 0, gstRate := Num 18\<rparr>,
                        b\<lparr>cgst := Num 90, sgst := Num 90, gstRate := Num 18\<rparr>] =
       [\<lparr>lname = ''Sales @ 18%'', ltype = ''Sales Ledger'', lrate = Num 18\<rparr>,
        \<lparr>lname = ''Output IGST @ 18%'', ltype = ''Tax Ledger'', lrate = Num 18\<rparr>,
        \<lparr>lname = ''Output CGST @ 9%'', ltype = ''Tax Ledger'', lrate = Num 18\<rparr>,
        \<lparr>lname = ''Output SGST @ 9%'', ltype = ''Tax Ledger'', lrate = Num 18\<rparr>]"
proof (intro conjI)
  show "suggestedLedgers txs =
     concat (map (ledgersForRate (\<exists>t \<in> set txs. gt0 (igst t))
                                (\<exists>t \<in> set txs. gt0 (cgst t) \<or> gt0 (sgst t)))
                 (sortedRates txs))"
    by (simp add: suggestedLedgers_def list_ex_iff)
  show "set (sortedRates txs) = {r. gt0 r \<and> r \<in> gstRate ` set txs}"
    by (rule sortedRates_set)
  show "sorted_wrt (<) (map numVal (sortedRates txs))"
    by (rule sortedRates_strict)
  show "map lname (ledgersForRate hasIgst hasCgstSgst r) =
       [''Sales @ '' @ numToString r @ ''%'']
       @ (if hasIgst then [''Output IGST @ '' @ numToString r @ ''%''] else [])
       @ (if hasCgstSgst
          then [''Output CGST @ '' @ numToString (numDiv r (Num 2)) @ ''%'',
                ''Output SGST @ '' @ numToString (numDiv r (Num 2)) @ ''%'']
          else [])"
    by (simp add: ledgersForRate_def)
  have half: "numDiv (Num 18) (Num 2) = Num 9" by simp
  show "suggestedLedgers [a\<lparr>igst := Num 180, cgst := Num 0, gstRate := Num 18\<rparr>,
                        b\<lparr>cgst := Num 90, sgst := Num 90, gstRate := Num 18\<rparr>] =
       [\<lparr>lname = ''Sales @ 18%'', ltype = ''Sales Ledger'', lrate = Num 18\<rparr>,
        \<lparr>lname = ''Output IGST @ 18%'', ltype = ''Tax Ledger'', lrate = Num 18\<rparr>,
        \<lparr>lname = ''Output CGST @ 9%'', ltype = ''Tax Ledger'', lrate = Num 18\<rparr>,
        \<lparr>lname = ''Output SGST @ 9%'', ltype = ''Tax Ledger'', lrate = Num 18\<rparr>]"
    by (simp add: suggestedLedgers_def scenario_rates ledgersForRate_def half numToString_18
        numToString_9 del: numToString.simps numDiv.simps)
qed

section \<open>The tax entries of a voucher\<close>

lemma split_tax_row:
  "buildTransaction splitTaxFile splitTaxMapping splitTaxRow = Inr sgstOnlyTransaction"
  by (simp add: build_row_defs splitTaxFile_def splitTaxMapping_def splitTaxRow_def
      sgstOnlyTransaction_def)

lemma sgst_only_ledgers:
  "suggestedLedgers [sgstOnlyTransaction] =
     [\<lparr>lname = ''Sales @ 18%'', ltype = ''Sales Ledger'', lrate = Num 18\<rparr>,
      \<lparr>lname = ''Output CGST @ 9%'', ltype = ''Tax Ledger'', lrate = Num 18\<rparr>,
      \<lparr>lname = ''Output SGST @ 9%'', ltype = ''Tax Ledger'', lrate = Num 18\<rparr>]"
proof -
  have half: "numDiv (Num 18) (Num 2) = Num 9" by simp
  have r: "sortedRates [sgstOnlyTransaction] = [Num 18]"
    by (simp add: sortedRates_def collectRates_def setAdd_def sgstOnlyTransaction_def)
  have flags: "\<not> gt0 (igst sgstOnlyTransaction)" "\<not> gt0 (cgst sgstOnlyTransaction)"
    "gt0 (sgst sgstOnlyTransaction)"
    by (simp_all add: sgstOnlyTransaction_def)
  show ?thesis
    by (simp add: suggestedLedgers_def r flags ledgersForRate_def half numToString_18
        numToString_9 del: numToString.simps numDiv.simps)
qed

text \<open>
  Claim C1 at a transaction with \<open>cgst = 0\<close> and \<open>sgst = 90\<close>, which the builder gives
  for a row whose CGST cell is empty: \<open>if (tx.cgst > 0)\<close> is the only test in front of the
  CGST and SGST entries, so the voucher is its opening part followed at once by its
  closing lines, with no tax entry in it. The same transaction with \<open>cgst = 90\<close> has both
  entries, and \<open>suggestedLedgers\<close>, which tests \<open>t.cgst > 0 || t.sgst > 0\<close>, lists the CGST
  and the SGST ledger for the transaction as it is.
\<close>

theorem sgst_only_voucher:
  "buildTransaction splitTaxFile splitTaxMapping splitTaxRow = Inr sgstOnlyTransaction
   \<and> gt0 (sgst sgstOnlyTransaction) \<and> \<not> gt0 (cgst sgstOnlyTransaction)
   \<and> voucherXml dp ov sgstOnlyTransaction = voucherOpen dp ov sgstOnlyTransaction @ voucherClose
   \<and> voucherXml dp ov (sgstOnlyTransaction\<lparr>cgst := Num 90\<rparr>) =
       voucherOpen dp ov (sgstOnlyTransaction\<lparr>cgst := Num 90\<rparr>)
       @ taxEntry (cgstLedger ov (sgstOnlyTransaction\<lparr>cgst := Num 90\<rparr>)) ''90.00''
       @ taxEntry (sgstLedger ov (sgstOnlyTransaction\<lparr>cgst := Num 90\<rparr>)) ''90.00''
       @ voucherClose
   \<and> map lname (suggestedLedgers [sgstOnlyTransaction]) =
       [''Sales @ 18%'', ''Output CGST @ 9%'', ''Output SGST @ 9%'']"
proof -
  have f: "toFixed2 (Num 90) = ''90.00''"
    by (simp add: show_simps)
  have a: "voucherXml dp ov sgstOnlyTransaction = voucherOpen dp ov sgstOnlyTransaction @ voucherClose"
    by (simp add: voucherXml_def sgstOnlyTransaction_def)
  have b: "voucherXml dp ov (sgstOnlyTransaction\<lparr>cgst := Num 90\<rparr>) =
       voucherOpen dp ov (sgstOnlyTransaction\<lparr>cgst := Num 90\<rparr>)
       @ taxEntry (cgstLedger ov (sgstOnlyTransaction\<lparr>cgst := Num 90\<rparr>)) ''90.00''
       @ taxEntry (sgstLedger ov (sgstOnlyTransaction\<lparr>cgst := Num 90\<rparr>)) ''90.00''
       @ voucherClose"
    using f by (simp add: voucherXml_def cgstSgstBlock_def sgstOnlyTransaction_def
        del: toFixed2.simps)
  show ?thesis
    using split_tax_row a b
    by (simp add: sgst_only_ledgers) (simp add: sgstOnlyTransaction_def)
qed

end
